theory Spec2Isabelle
  imports Main
begin

section \<open>Python values\<close>

text \<open>
  The extractors of \<^verbatim>\<open>youtube_dl/extractor/svt.py\<close> work on decoded JSON documents and
  build Python dictionaries from them. Both are values of one type: \<open>PNone\<close> is Python's
  \<^verbatim>\<open>None\<close> (JSON \<^verbatim>\<open>null\<close>), a dictionary is an association list in insertion order whose
  keys are pairwise different. JSON numbers are modelled as integers.
\<close>

datatype pyval =
    PNone
  | PBool bool
  | PInt int
  | PStr string
  | PList "pyval list"
  | PDict "(pyval \<times> pyval) list"

type_synonym dict = "(pyval \<times> pyval) list"

text \<open>The exceptions that the modelled code can raise.\<close>

datatype error =
    KeyError pyval
  | TypeError
  | AttributeError
  | IndexError
  | GeoRestrictedError string "string list"
  | ExtractorError string

text \<open>Truth value of a Python object, as used by \<^verbatim>\<open>if x\<close>, \<^verbatim>\<open>not x\<close> and \<^verbatim>\<open>x or y\<close>.\<close>

fun truthy :: "pyval \<Rightarrow> bool" where
  "truthy PNone = False"
| "truthy (PBool b) = b"
| "truthy (PInt n) = (n \<noteq> 0)"
| "truthy (PStr s) = (s \<noteq> [])"
| "truthy (PList xs) = (xs \<noteq> [])"
| "truthy (PDict kvs) = (kvs \<noteq> [])"

text \<open>
  Python's \<^verbatim>\<open>==\<close> on the values that can be dictionary keys: \<^verbatim>\<open>True == 1\<close> and
  \<^verbatim>\<open>False == 0\<close>, everything else is equal only to itself.
\<close>

fun py_eq :: "pyval \<Rightarrow> pyval \<Rightarrow> bool" where
  "py_eq (PBool a) (PInt n) = (n = (if a then 1 else 0))"
| "py_eq (PInt n) (PBool a) = (n = (if a then 1 else 0))"
| "py_eq a b = (a = b)"

text \<open>Lists and dictionaries are not hashable: using one as a key raises \<^verbatim>\<open>TypeError\<close>.\<close>

fun hashable :: "pyval \<Rightarrow> bool" where
  "hashable (PList xs) = False"
| "hashable (PDict kvs) = False"
| "hashable v = True"

subsection \<open>Dictionary operations\<close>

text \<open>\<^verbatim>\<open>k in d\<close> and \<^verbatim>\<open>d[k]\<close>: the value stored under a key equal to \<open>k\<close>, if any.\<close>

fun dict_find :: "dict \<Rightarrow> pyval \<Rightarrow> pyval option" where
  "dict_find [] k = None"
| "dict_find ((k', v) # kvs) k = (if py_eq k' k then Some v else dict_find kvs k)"

text \<open>\<^verbatim>\<open>d[k] = v\<close>: an existing key keeps its place, a new key is added at the end.\<close>

fun dict_set :: "dict \<Rightarrow> pyval \<Rightarrow> pyval \<Rightarrow> dict" where
  "dict_set [] k v = [(k, v)]"
| "dict_set ((k', v') # kvs) k v =
     (if py_eq k' k then (k', v) # kvs else (k', v') # dict_set kvs k v)"

text \<open>\<^verbatim>\<open>d.get(k, default)\<close> and \<^verbatim>\<open>d.get(k)\<close> for a string key.\<close>

definition dget_default :: "dict \<Rightarrow> string \<Rightarrow> pyval \<Rightarrow> pyval" where
  "dget_default d k dflt = (case dict_find d (PStr k) of None \<Rightarrow> dflt | Some v \<Rightarrow> v)"

definition dget :: "dict \<Rightarrow> string \<Rightarrow> pyval" where
  "dget d k = dget_default d k PNone"

text \<open>\<^verbatim>\<open>x[k]\<close> for a string key \<open>k\<close>: only a dictionary can be subscripted by a string.\<close>

fun getitem :: "pyval \<Rightarrow> string \<Rightarrow> error + pyval" where
  "getitem (PDict d) k =
     (case dict_find d (PStr k) of None \<Rightarrow> Inl (KeyError (PStr k)) | Some v \<Rightarrow> Inr v)"
| "getitem v k = Inl TypeError"

text \<open>
  \<^verbatim>\<open>for x in v\<close>: a list yields its elements, a dictionary its keys, a string its
  characters; nothing else in a JSON document is iterable.
\<close>

fun py_iter :: "pyval \<Rightarrow> error + pyval list" where
  "py_iter (PList xs) = Inr xs"
| "py_iter (PDict kvs) = Inr (map fst kvs)"
| "py_iter (PStr s) = Inr (map (\<lambda>c. PStr [c]) s)"
| "py_iter v = Inl TypeError"

text \<open>
  \<^verbatim>\<open>s.replace(old, new)\<close>: every non-overlapping occurrence of \<open>old\<close>, found from the
  left, is replaced.
\<close>

function str_replace :: "string \<Rightarrow> string \<Rightarrow> string \<Rightarrow> string" where
  "str_replace old new [] = (if old = [] then new else [])"
| "str_replace old new (c # cs) =
     (if old = [] then new @ c # str_replace old new cs
      else if take (length old) (c # cs) = old
        then new @ str_replace old new (drop (length old) (c # cs))
      else c # str_replace old new cs)"
  by pat_completeness auto
termination
  by (relation "measure (\<lambda>(old, new, s). length s)") auto


section \<open>Collaborators that are not part of the extractor module\<close>

text \<open>
  \<^verbatim>\<open>svt.py\<close> imports its helpers from \<^verbatim>\<open>..utils\<close>, \<^verbatim>\<open>..compat\<close> and \<^verbatim>\<open>.common\<close>.
  The manifest decoders of \<^verbatim>\<open>InfoExtractor\<close> are called with \<^verbatim>\<open>fatal=False\<close>: each call
  is recorded and answers with a list of formats, empty when the download failed.
\<close>

datatype decoder_call =
    M3U8 pyval string string string pyval
      \<comment> \<open>\<^verbatim>\<open>_extract_m3u8_formats(url, video_id, ext=, entry_protocol=, m3u8_id=)\<close>\<close>
  | F4M string string pyval
      \<comment> \<open>\<^verbatim>\<open>_extract_f4m_formats(url, video_id, f4m_id=)\<close>\<close>
  | MPD pyval string pyval
      \<comment> \<open>\<^verbatim>\<open>_extract_mpd_formats(url, video_id, mpd_id=)\<close>\<close>

text \<open>
  The helpers whose behaviour the extractor does not depend on are parameters of the
  model; every theorem below holds for all of them.
\<close>

text \<open>The four extractor classes of the module.\<close>

datatype ie = SVTIE | SVTPlayIE | SVTSeriesIE | SVTPageIE

record env =
  determine_ext :: "pyval \<Rightarrow> error + string"
  int_or_none :: "pyval \<Rightarrow> pyval"
  unified_timestamp :: "pyval \<Rightarrow> pyval"
  decode :: "decoder_call \<Rightarrow> pyval list"
  sort_formats :: "pyval list \<Rightarrow> error + pyval list"
  compat_str :: "pyval \<Rightarrow> string"
  str_or_none :: "pyval \<Rightarrow> pyval"
  strip_or_none :: "pyval \<Rightarrow> pyval"
  valid_url :: "ie \<Rightarrow> string \<Rightarrow> bool"
    \<comment> \<open>\<^verbatim>\<open>re.match(cls._VALID_URL, url) is not None\<close>\<close>

text \<open>
  Modelled from the spec: \<^verbatim>\<open>dict_get\<close> of \<^verbatim>\<open>youtube_dl/utils.py\<close> is missing from the
  sources. It reads the first present of the given keys; a key whose value is \<^verbatim>\<open>None\<close>
  counts as absent, and so does a key whose value is false unless the caller passes
  \<^verbatim>\<open>skip_false_values=False\<close> to tell false from absent. When no key is present the
  result is \<^verbatim>\<open>default\<close>.
\<close>

fun dict_get :: "dict \<Rightarrow> string list \<Rightarrow> pyval \<Rightarrow> bool \<Rightarrow> pyval" where
  "dict_get d [] dflt skip_false_values = dflt"
| "dict_get d (key # keys) dflt skip_false_values =
     (case dict_find d (PStr key) of
        None \<Rightarrow> dict_get d keys dflt skip_false_values
      | Some v \<Rightarrow>
          if v = PNone \<or> (skip_false_values \<and> \<not> truthy v)
          then dict_get d keys dflt skip_false_values
          else v)"

text \<open>
  Modelled from the spec: \<^verbatim>\<open>try_get\<close> of \<^verbatim>\<open>youtube_dl/utils.py\<close> is missing from the
  sources. Each getter of the extractor is a path of string subscripts; the result is the
  value of the first path that can be followed and has the expected type, \<^verbatim>\<open>None\<close> when
  there is none. A failing lookup is never an error.
\<close>

fun path_get :: "pyval \<Rightarrow> string list \<Rightarrow> error + pyval" where
  "path_get v [] = Inr v"
| "path_get v (k # ks) =
     (case getitem v k of Inl e \<Rightarrow> Inl e | Inr w \<Rightarrow> path_get w ks)"

fun try_get :: "pyval \<Rightarrow> string list list \<Rightarrow> (pyval \<Rightarrow> bool) \<Rightarrow> pyval" where
  "try_get src [] expected_type = PNone"
| "try_get src (getter # getters) expected_type =
     (case path_get src getter of
        Inl e \<Rightarrow> try_get src getters expected_type
      | Inr v \<Rightarrow> if expected_type v then v else try_get src getters expected_type)"

definition any_type :: "pyval \<Rightarrow> bool" where
  "any_type v = True"

fun is_dict :: "pyval \<Rightarrow> bool" where
  "is_dict (PDict d) = True"
| "is_dict v = False"

fun is_str :: "pyval \<Rightarrow> bool" where
  "is_str (PStr s) = True"
| "is_str v = False"

text \<open>
  Modelled from the spec: \<^verbatim>\<open>merge_dicts\<close> of \<^verbatim>\<open>youtube_dl/utils.py\<close> is missing from the
  sources. Any key that is present and non-empty in the second dictionary overwrites the
  first; every other key of the first dictionary is left untouched, never nulled.
\<close>

definition non_empty :: "pyval \<Rightarrow> bool" where
  "non_empty v = (v \<noteq> PNone \<and> v \<noteq> PStr [])"

fun merge_dicts :: "dict \<Rightarrow> dict \<Rightarrow> dict" where
  "merge_dicts base [] = base"
| "merge_dicts base ((k, v) # kvs) =
     merge_dicts (if non_empty v then dict_set base k v else base) kvs"

section \<open>SVTBaseIE\<close>

definition GEO_COUNTRIES :: "string list" where
  "GEO_COUNTRIES = [''SE'']"

subsection \<open>\<^verbatim>\<open>_extract_metadata\<close>\<close>

text \<open>\<^verbatim>\<open>thumbnail.replace('{format}', 'extralarge')\<close>; only a string has that method.\<close>

fun thumbnail_replace :: "pyval \<Rightarrow> error + pyval" where
  "thumbnail_replace (PStr s) = Inr (PStr (str_replace ''{format}'' ''extralarge'' s))"
| "thumbnail_replace v = Inl AttributeError"

text \<open>
  Lines 39 to 44: \<^verbatim>\<open>adult\<close> is read with \<^verbatim>\<open>skip_false_values=False\<close>, and the age limit
  is set only when \<^verbatim>\<open>adult is not None\<close>.
\<close>

definition age_limit_of :: "dict \<Rightarrow> pyval" where
  "age_limit_of video_info =
     (let adult = dict_get video_info
            [''inappropriateForChildren'', ''blockedForChildren''] PNone False
      in if adult \<noteq> PNone then (if truthy adult then PInt 18 else PInt 0) else PNone)"

text \<open>The ten fields that \<^verbatim>\<open>_extract_metadata\<close> derives, in the order of its dictionary.\<close>

definition derived_fields :: "env \<Rightarrow> dict \<Rightarrow> pyval \<Rightarrow> dict" where
  "derived_fields e video_info thumbnail =
     [(PStr ''title'', dget video_info ''title''),
      (PStr ''thumbnail'', thumbnail),
      (PStr ''description'', dget video_info ''description''),
      (PStr ''timestamp'', unified_timestamp e
         (try_get (PDict video_info) [[''validFrom''], [''rights'', ''validFrom'']] any_type)),
      (PStr ''duration'', int_or_none e
         (dict_get video_info [''materialLength'', ''contentDuration''] PNone True)),
      (PStr ''age_limit'', age_limit_of video_info),
      (PStr ''series'', dget video_info ''programTitle''),
      (PStr ''season_number'', int_or_none e (dget video_info ''season'')),
      (PStr ''episode'', dget video_info ''episodeTitle''),
      (PStr ''episode_number'', int_or_none e (dget video_info ''episodeNumber''))]"

definition thumbnail_of :: "dict \<Rightarrow> error + pyval" where
  "thumbnail_of video_info =
     (let thumbnail = dget video_info ''thumbnail''
      in if truthy thumbnail then thumbnail_replace thumbnail else Inr thumbnail)"

definition extract_metadata :: "env \<Rightarrow> dict \<Rightarrow> dict \<Rightarrow> error + dict" where
  "extract_metadata e info video_info =
     (case thumbnail_of video_info of
        Inl err \<Rightarrow> Inl err
      | Inr thumbnail \<Rightarrow> Inr (merge_dicts info (derived_fields e video_info thumbnail)))"


subsection \<open>\<^verbatim>\<open>_extract_video\<close>\<close>

text \<open>Line 64: \<^verbatim>\<open>vr.get('playerType') or vr.get('format')\<close>.\<close>

definition player_type_of :: "dict \<Rightarrow> pyval" where
  "player_type_of vr =
     (let p = dget vr ''playerType'' in if truthy p then p else dget vr ''format'')"

text \<open>
  The body of the loop over \<^verbatim>\<open>videoReferences\<close> (lines 64 to 84) for one reference:
  the formats that it adds, and the decoder calls that it makes. The calls are reported
  also when the body raises.
\<close>

fun video_reference ::
  "env \<Rightarrow> string \<Rightarrow> string \<Rightarrow> pyval \<Rightarrow> (error + pyval list) \<times> decoder_call list" where
  "video_reference e m3u8_protocol video_id (PDict vr) =
     (let player_type = player_type_of vr in
      case dict_find vr (PStr ''url'') of
        None \<Rightarrow> (Inl (KeyError (PStr ''url'')), [])
      | Some vurl \<Rightarrow>
         (case determine_ext e vurl of
            Inl err \<Rightarrow> (Inl err, [])
          | Inr ext \<Rightarrow>
              if ext = ''m3u8'' then
                (let c = M3U8 vurl video_id ''mp4'' m3u8_protocol player_type
                 in (Inr (decode e c), [c]))
              else if ext = ''f4m'' then
                (case vurl of
                   PStr u \<Rightarrow>
                     (let c = F4M (u @ ''?hdcore=3.3.0'') video_id player_type
                      in (Inr (decode e c), [c]))
                 | _ \<Rightarrow> (Inl TypeError, []))
              else if ext = ''mpd'' then
                (if py_eq player_type (PStr ''dashhbbtv'') then
                   (let c = MPD vurl video_id player_type
                    in (Inr (decode e c), [c]))
                 else (Inr [], []))
              else
                (Inr [PDict [(PStr ''format_id'', player_type), (PStr ''url'', vurl)]], [])))"
| "video_reference e m3u8_protocol video_id vr = (Inl AttributeError, [])"

text \<open>The loop itself: it stops at the first reference that raises.\<close>

fun video_references ::
  "env \<Rightarrow> string \<Rightarrow> string \<Rightarrow> pyval list \<Rightarrow> pyval list \<Rightarrow> decoder_call list
     \<Rightarrow> (error + pyval list) \<times> decoder_call list" where
  "video_references e m3u8_protocol video_id [] formats calls = (Inr formats, calls)"
| "video_references e m3u8_protocol video_id (vr # vrs) formats calls =
     (case video_reference e m3u8_protocol video_id vr of
        (Inl err, cs) \<Rightarrow> (Inl err, calls @ cs)
      | (Inr fs, cs) \<Rightarrow>
          video_references e m3u8_protocol video_id vrs (formats @ fs) (calls @ cs))"

text \<open>Line 60 and line 61.\<close>

definition is_live_of :: "dict \<Rightarrow> pyval" where
  "is_live_of video_info = dict_get video_info [''live'', ''simulcast''] (PBool False) True"

definition m3u8_protocol_of :: "pyval \<Rightarrow> string" where
  "m3u8_protocol_of is_live = (if truthy is_live then ''m3u8'' else ''m3u8_native'')"

text \<open>Lines 62 to 84: the formats of a video, or the exception that ends the loop.\<close>

definition extract_formats ::
  "env \<Rightarrow> dict \<Rightarrow> string \<Rightarrow> (error + pyval list) \<times> decoder_call list" where
  "extract_formats e video_info video_id =
     (case getitem (PDict video_info) ''videoReferences'' of
        Inl err \<Rightarrow> (Inl err, [])
      | Inr refs \<Rightarrow>
         (case py_iter refs of
            Inl err \<Rightarrow> (Inl err, [])
          | Inr vrs \<Rightarrow>
              video_references e (m3u8_protocol_of (is_live_of video_info)) video_id vrs [] []))"

text \<open>
  Lines 85 to 88. Modelled from the spec: \<^verbatim>\<open>raise_geo_restricted\<close> of \<^verbatim>\<open>InfoExtractor\<close>
  is missing from the sources; it raises the geo restriction error with the message and the
  countries that it is given. \<^verbatim>\<open>video_info.get('rights', {})\<close> is looked at only when
  there are no formats, and must then have a \<^verbatim>\<open>get\<close> method.
\<close>

definition geo_blocked :: "dict \<Rightarrow> error + bool" where
  "geo_blocked video_info =
     (case dget_default video_info ''rights'' (PDict []) of
        PDict rights \<Rightarrow> Inr (truthy (dget rights ''geoBlockedSweden''))
      | _ \<Rightarrow> Inl AttributeError)"

definition geo_check :: "dict \<Rightarrow> pyval list \<Rightarrow> error + unit" where
  "geo_check video_info formats =
     (if formats = [] then
        (case geo_blocked video_info of
           Inl err \<Rightarrow> Inl err
         | Inr True \<Rightarrow>
             Inl (GeoRestrictedError ''This video is only available in Sweden'' GEO_COUNTRIES)
         | Inr False \<Rightarrow> Inr ())
      else Inr ())"

text \<open>
  Lines 94 to 102, the body of the loop over the subtitle references:
  \<^verbatim>\<open>subtitles.setdefault(subtitle_lang, []).append({'url': subtitle_url})\<close> needs a hashable
  language.
\<close>

fun setdefault_append :: "dict \<Rightarrow> pyval \<Rightarrow> pyval \<Rightarrow> dict" where
  "setdefault_append [] k x = [(k, PList [x])]"
| "setdefault_append ((k', v) # kvs) k x =
     (if py_eq k' k
      then (k', (case v of PList xs \<Rightarrow> PList (xs @ [x]) | _ \<Rightarrow> v)) # kvs
      else (k', v) # setdefault_append kvs k x)"

fun subtitle_reference :: "env \<Rightarrow> dict \<Rightarrow> pyval \<Rightarrow> error + dict" where
  "subtitle_reference e subtitles (PDict sr) =
     (let subtitle_url = dget sr ''url'';
          subtitle_lang = dget_default sr ''language'' (PStr ''sv'')
      in if truthy subtitle_url then
           (case determine_ext e subtitle_url of
              Inl err \<Rightarrow> Inl err
            | Inr ext \<Rightarrow>
                if ext = ''m3u8'' then Inr subtitles
                else if hashable subtitle_lang
                  then Inr (setdefault_append subtitles subtitle_lang
                              (PDict [(PStr ''url'', subtitle_url)]))
                else Inl TypeError)
         else Inr subtitles)"
| "subtitle_reference e subtitles sr = Inl AttributeError"

fun subtitle_loop :: "env \<Rightarrow> dict \<Rightarrow> pyval list \<Rightarrow> error + dict" where
  "subtitle_loop e subtitles [] = Inr subtitles"
| "subtitle_loop e subtitles (sr # srs) =
     (case subtitle_reference e subtitles sr of
        Inl err \<Rightarrow> Inl err
      | Inr subtitles' \<Rightarrow> subtitle_loop e subtitles' srs)"

text \<open>Lines 91 to 102.\<close>

definition extract_subtitles :: "env \<Rightarrow> dict \<Rightarrow> error + dict" where
  "extract_subtitles e video_info =
     (case dict_get video_info [''subtitles'', ''subtitleReferences''] PNone True of
        PList srs \<Rightarrow> subtitle_loop e [] srs
      | _ \<Rightarrow> Inr [])"

text \<open>
  The whole of \<^verbatim>\<open>_extract_video\<close>: the resulting dictionary or the exception raised,
  with the decoder calls made on the way.
\<close>

definition extract_video ::
  "env \<Rightarrow> dict \<Rightarrow> string \<Rightarrow> (error + dict) \<times> decoder_call list" where
  "extract_video e video_info video_id =
     (let is_live = is_live_of video_info in
      case extract_formats e video_info video_id of
        (Inl err, calls) \<Rightarrow> (Inl err, calls)
      | (Inr formats, calls) \<Rightarrow>
         (case geo_check video_info formats of
            Inl err \<Rightarrow> (Inl err, calls)
          | Inr u \<Rightarrow>
             (case sort_formats e formats of
                Inl err \<Rightarrow> (Inl err, calls)
              | Inr formats' \<Rightarrow>
                 (case extract_subtitles e video_info of
                    Inl err \<Rightarrow> (Inl err, calls)
                  | Inr subtitles \<Rightarrow>
                      (extract_metadata e
                         [(PStr ''id'', PStr video_id),
                          (PStr ''formats'', PList formats'),
                          (PStr ''subtitles'', PDict subtitles),
                          (PStr ''is_live'', is_live)]
                         video_info,
                       calls)))))"


section \<open>SVTPlayIE\<close>

text \<open>
  Lines 271 to 274 of \<^verbatim>\<open>_real_extract\<close>: when the data embedded in the page has a
  dictionary at \<^verbatim>\<open>videoPage.video\<close>, \<^verbatim>\<open>_extract_metadata\<close> is run on it with the item
  built so far as its first argument.
\<close>

definition video_page_metadata :: "env \<Rightarrow> pyval \<Rightarrow> dict \<Rightarrow> error + dict" where
  "video_page_metadata e data info_dict =
     (if truthy data then
        (case try_get data [[''videoPage'', ''video'']] is_dict of
           PDict video_data \<Rightarrow>
             if video_data \<noteq> [] then extract_metadata e info_dict video_data
             else Inr info_dict
         | _ \<Rightarrow> Inr info_dict)
      else Inr info_dict)"

section \<open>URL matching\<close>

text \<open>
  Modelled from the spec: \<^verbatim>\<open>InfoExtractor.suitable\<close> is missing from the sources; an
  extractor that does not override it claims the URLs that match its \<^verbatim>\<open>_VALID_URL\<close>.
  \<^verbatim>\<open>SVTIE\<close> and \<^verbatim>\<open>SVTPlayIE\<close> inherit it, \<^verbatim>\<open>SVTSeriesIE\<close> (line 304) and
  \<^verbatim>\<open>SVTPageIE\<close> (line 403) override it.
\<close>

definition InfoExtractor_suitable :: "env \<Rightarrow> ie \<Rightarrow> string \<Rightarrow> bool" where
  "InfoExtractor_suitable e cls url = valid_url e cls url"

definition SVTIE_suitable :: "env \<Rightarrow> string \<Rightarrow> bool" where
  "SVTIE_suitable e url = InfoExtractor_suitable e SVTIE url"

definition SVTPlayIE_suitable :: "env \<Rightarrow> string \<Rightarrow> bool" where
  "SVTPlayIE_suitable e url = InfoExtractor_suitable e SVTPlayIE url"

definition SVTSeriesIE_suitable :: "env \<Rightarrow> string \<Rightarrow> bool" where
  "SVTSeriesIE_suitable e url =
     (if SVTIE_suitable e url \<or> SVTPlayIE_suitable e url then False
      else InfoExtractor_suitable e SVTSeriesIE url)"

definition SVTPageIE_suitable :: "env \<Rightarrow> string \<Rightarrow> bool" where
  "SVTPageIE_suitable e url =
     (if SVTIE_suitable e url then False else InfoExtractor_suitable e SVTPageIE url)"

section \<open>SVTPageIE\<close>

text \<open>
  Modelled from the spec: \<^verbatim>\<open>url_result\<close> and \<^verbatim>\<open>playlist_result\<close> of \<^verbatim>\<open>InfoExtractor\<close>
  are missing from the sources. A forward reference carries the URL, the key of the
  extractor that resolves it and the content id; a playlist carries its entries, its id and
  its title.
\<close>

definition url_result :: "string \<Rightarrow> string \<Rightarrow> string \<Rightarrow> pyval" where
  "url_result url ie_key video_id =
     PDict [(PStr ''url'', PStr url), (PStr ''ie_key'', PStr ie_key),
            (PStr ''id'', PStr video_id)]"

definition playlist_result :: "pyval list \<Rightarrow> pyval \<Rightarrow> pyval \<Rightarrow> pyval" where
  "playlist_result entries playlist_id playlist_title =
     PDict [(PStr ''entries'', PList entries), (PStr ''id'', playlist_id),
            (PStr ''title'', playlist_title)]"

text \<open>Lines 414 to 418: \<^verbatim>\<open>_process_content\<close> appends to the entries or raises.\<close>

fun process_content :: "env \<Rightarrow> pyval list \<Rightarrow> pyval \<Rightarrow> error + pyval list" where
  "process_content e entries (PDict content) =
     (let t = dget content ''_type'' in
      if py_eq t (PStr ''VIDEOCLIP'') \<or> py_eq t (PStr ''VIDEOEPISODE'') then
        (case getitem (PDict content) ''image'' of
           Inl err \<Rightarrow> Inl err
         | Inr img \<Rightarrow>
            (case getitem img ''svtId'' of
               Inl err \<Rightarrow> Inl err
             | Inr svt_id \<Rightarrow>
                 (let video_id = compat_str e svt_id
                  in Inr (entries @ [url_result (''svt:'' @ video_id) ''SVTPlay'' video_id]))))
      else Inr entries)"
| "process_content e entries content = Inl AttributeError"

text \<open>Lines 420 and 421.\<close>

fun media_loop :: "env \<Rightarrow> pyval list \<Rightarrow> pyval list \<Rightarrow> error + pyval list" where
  "media_loop e entries [] = Inr entries"
| "media_loop e entries (media # rest) =
     (case process_content e entries media of
        Inl err \<Rightarrow> Inl err
      | Inr entries' \<Rightarrow> media_loop e entries' rest)"

text \<open>Lines 423 and 424: \<^verbatim>\<open>_process_content(obj.get('content') or {})\<close>.\<close>

fun structured_body_content :: "pyval \<Rightarrow> error + pyval" where
  "structured_body_content (PDict obj) =
     (let c = dget obj ''content'' in Inr (if truthy c then c else PDict []))"
| "structured_body_content obj = Inl AttributeError"

fun structured_body_loop :: "env \<Rightarrow> pyval list \<Rightarrow> pyval list \<Rightarrow> error + pyval list" where
  "structured_body_loop e entries [] = Inr entries"
| "structured_body_loop e entries (obj # rest) =
     (case structured_body_content obj of
        Inl err \<Rightarrow> Inl err
      | Inr content \<Rightarrow>
         (case process_content e entries content of
            Inl err \<Rightarrow> Inl err
          | Inr entries' \<Rightarrow> structured_body_loop e entries' rest))"

text \<open>
  Lines 412 to 428 of \<^verbatim>\<open>_real_extract\<close>, from the article that was downloaded to the
  playlist.
\<close>

definition article_playlist :: "env \<Rightarrow> dict \<Rightarrow> error + pyval" where
  "article_playlist e article =
     (case py_iter (dget_default article ''media'' (PList [])) of
        Inl err \<Rightarrow> Inl err
      | Inr medias \<Rightarrow>
         (case media_loop e [] medias of
            Inl err \<Rightarrow> Inl err
          | Inr entries \<Rightarrow>
             (case py_iter (dget_default article ''structuredBody'' (PList [])) of
                Inl err \<Rightarrow> Inl err
              | Inr objs \<Rightarrow>
                 (case structured_body_loop e entries objs of
                    Inl err \<Rightarrow> Inl err
                  | Inr entries' \<Rightarrow>
                      Inr (playlist_result entries'
                             (str_or_none e (dget article ''id''))
                             (strip_or_none e (dget article ''title'')))))))"

section \<open>A concrete choice of the collaborators\<close>

text \<open>
  For evaluating the model on examples: the extension of a URL is the text after its last
  dot, the numeric helpers let integers through, every manifest holds one format, the order
  of the formats is kept, and a URL matches a pattern when it starts like its fixed part.
\<close>

definition after_last_dot :: "string \<Rightarrow> string" where
  "after_last_dot s = rev (takeWhile (\<lambda>c. c \<noteq> CHR ''.'') (rev s))"

fun simple_ext :: "pyval \<Rightarrow> error + string" where
  "simple_ext PNone = Inr ''unknown_video''"
| "simple_ext (PStr s) =
     Inr (if CHR ''.'' \<in> set s then after_last_dot s else ''unknown_video'')"
| "simple_ext v = Inl TypeError"

fun int_only :: "pyval \<Rightarrow> pyval" where
  "int_only (PInt n) = PInt n"
| "int_only v = PNone"

fun str_only :: "pyval \<Rightarrow> pyval" where
  "str_only (PStr s) = PStr s"
| "str_only v = PNone"

fun str_of :: "pyval \<Rightarrow> string" where
  "str_of (PStr s) = s"
| "str_of v = ''None''"

fun starts_like :: "ie \<Rightarrow> string \<Rightarrow> bool" where
  "starts_like SVTIE url = (take 21 url = ''http://www.svt.se/wd?'')"
| "starts_like SVTPlayIE url =
     (take 4 url = ''svt:'' \<or> take 29 url = ''https://www.svtplay.se/video/'')"
| "starts_like SVTSeriesIE url = (take 23 url = ''https://www.svtplay.se/'')"
| "starts_like SVTPageIE url = (take 18 url = ''http://www.svt.se/'')"

fun one_format :: "decoder_call \<Rightarrow> pyval list" where
  "one_format (M3U8 url video_id ext entry_protocol m3u8_id) =
     [PDict [(PStr ''format_id'', m3u8_id), (PStr ''url'', url), (PStr ''ext'', PStr ext),
             (PStr ''protocol'', PStr entry_protocol)]]"
| "one_format (F4M url video_id f4m_id) =
     [PDict [(PStr ''format_id'', f4m_id), (PStr ''url'', PStr url)]]"
| "one_format (MPD url video_id mpd_id) =
     [PDict [(PStr ''format_id'', mpd_id), (PStr ''url'', url)]]"

definition test_env :: env where
  "test_env = \<lparr> determine_ext = simple_ext, int_or_none = int_only,
       unified_timestamp = int_only, decode = one_format, sort_formats = Inr,
       compat_str = str_of, str_or_none = str_only, strip_or_none = str_only,
       valid_url = starts_like \<rparr>"


section \<open>Notions used to state the properties\<close>

text \<open>A key is absent from a document when it is missing or \<^verbatim>\<open>null\<close>.\<close>

definition absent :: "dict \<Rightarrow> string \<Rightarrow> bool" where
  "absent d k = (dict_find d (PStr k) = None \<or> dict_find d (PStr k) = Some PNone)"

text \<open>A result that is not the geo restriction error.\<close>

definition is_geo_error :: "error \<Rightarrow> bool" where
  "is_geo_error err = (case err of GeoRestrictedError m cs \<Rightarrow> True | _ \<Rightarrow> False)"

definition no_geo_error :: "error + 'a \<Rightarrow> bool" where
  "no_geo_error r = (case r of Inl err \<Rightarrow> \<not> is_geo_error err | Inr v \<Rightarrow> True)"

text \<open>
  The format that a reference with a direct URL stands for, and the references all of whose
  URLs are direct: the extension is none of \<^verbatim>\<open>m3u8\<close>, \<^verbatim>\<open>f4m\<close> and \<^verbatim>\<open>mpd\<close>.
\<close>

fun direct_format :: "pyval \<Rightarrow> pyval" where
  "direct_format (PDict vr) =
     PDict [(PStr ''format_id'', player_type_of vr), (PStr ''url'', dget vr ''url'')]"
| "direct_format v = PNone"

fun non_adaptive :: "env \<Rightarrow> pyval \<Rightarrow> bool" where
  "non_adaptive e (PDict vr) =
     (case dict_find vr (PStr ''url'') of
        None \<Rightarrow> False
      | Some vurl \<Rightarrow>
         (case determine_ext e vurl of
            Inl err \<Rightarrow> False
          | Inr ext \<Rightarrow> ext \<noteq> ''m3u8'' \<and> ext \<noteq> ''f4m'' \<and> ext \<noteq> ''mpd''))"
| "non_adaptive e v = False"

text \<open>
  A reference that is a dictionary without the key \<^verbatim>\<open>url\<close>; a reference of the shape
  that the data model gives: a dictionary whose URL, when there is one, is a string that has
  an extension.
\<close>

fun lacks_url :: "pyval \<Rightarrow> bool" where
  "lacks_url (PDict vr) = (dict_find vr (PStr ''url'') = None)"
| "lacks_url v = False"

fun well_typed_reference :: "env \<Rightarrow> pyval \<Rightarrow> bool" where
  "well_typed_reference e (PDict vr) =
     (case dict_find vr (PStr ''url'') of
        None \<Rightarrow> True
      | Some vurl \<Rightarrow>
         is_str vurl \<and> (case determine_ext e vurl of Inl err \<Rightarrow> False | Inr ext \<Rightarrow> True))"
| "well_typed_reference e v = False"

text \<open>A flag of the document that is a boolean when it is there.\<close>

definition bool_or_absent :: "dict \<Rightarrow> string \<Rightarrow> bool" where
  "bool_or_absent d k =
     (dict_find d (PStr k) \<in> {None, Some PNone, Some (PBool True), Some (PBool False)})"

text \<open>
  The subtitle references: the URL and the language of a reference, the references that are
  kept (a URL that is not empty and not an \<^verbatim>\<open>m3u8\<close> manifest), the track that a reference
  stands for, and the tracks of one language in the order of the references. A reference of
  the expected shape is a dictionary whose URL, when not empty, has an extension, and whose
  language is then hashable.
\<close>

definition sub_url :: "dict \<Rightarrow> pyval" where
  "sub_url sr = dget sr ''url''"

definition sub_lang :: "dict \<Rightarrow> pyval" where
  "sub_lang sr = dget_default sr ''language'' (PStr ''sv'')"

fun sub_kept :: "env \<Rightarrow> pyval \<Rightarrow> bool" where
  "sub_kept e (PDict sr) = (truthy (sub_url sr) \<and> determine_ext e (sub_url sr) \<noteq> Inr ''m3u8'')"
| "sub_kept e v = False"

fun sub_in_language :: "pyval \<Rightarrow> pyval \<Rightarrow> bool" where
  "sub_in_language l (PDict sr) = py_eq (sub_lang sr) l"
| "sub_in_language l v = False"

fun sub_track :: "pyval \<Rightarrow> pyval" where
  "sub_track (PDict sr) = PDict [(PStr ''url'', sub_url sr)]"
| "sub_track v = PNone"

definition tracks_of :: "env \<Rightarrow> pyval \<Rightarrow> pyval list \<Rightarrow> pyval list" where
  "tracks_of e l srs = map sub_track (filter (\<lambda>sr. sub_kept e sr \<and> sub_in_language l sr) srs)"

fun well_typed_subtitle :: "env \<Rightarrow> pyval \<Rightarrow> bool" where
  "well_typed_subtitle e (PDict sr) =
     (truthy (sub_url sr) \<longrightarrow>
        hashable (sub_lang sr) \<and>
        (case determine_ext e (sub_url sr) of Inl err \<Rightarrow> False | Inr ext \<Rightarrow> True))"
| "well_typed_subtitle e v = False"

text \<open>Adding tracks to the list that a subtitle dictionary has for a language.\<close>

fun add_tracks :: "pyval option \<Rightarrow> pyval list \<Rightarrow> pyval option" where
  "add_tracks None ts = (if ts = [] then None else Some (PList ts))"
| "add_tracks (Some (PList xs)) ts = Some (PList (xs @ ts))"
| "add_tracks (Some v) ts = Some v"

fun is_list :: "pyval \<Rightarrow> bool" where
  "is_list (PList xs) = True"
| "is_list v = False"

text \<open>
  The content nodes of an article: a node qualifies by its type tag; a qualifying node is
  malformed when it has no \<^verbatim>\<open>image\<close>, or an \<^verbatim>\<open>image\<close> dictionary without \<^verbatim>\<open>svtId\<close>;
  a node of the expected shape is a dictionary whose \<^verbatim>\<open>image\<close>, when it qualifies and has
  one, is a dictionary. \<open>body_content\<close> is the node of an entry of \<^verbatim>\<open>structuredBody\<close>.
\<close>

definition qualifies :: "dict \<Rightarrow> bool" where
  "qualifies content =
     (dget content ''_type'' = PStr ''VIDEOCLIP'' \<or> dget content ''_type'' = PStr ''VIDEOEPISODE'')"

fun malformed_node :: "pyval \<Rightarrow> bool" where
  "malformed_node (PDict content) =
     (qualifies content \<and>
      (case dict_find content (PStr ''image'') of
         None \<Rightarrow> True
       | Some (PDict img) \<Rightarrow> dict_find img (PStr ''svtId'') = None
       | Some v \<Rightarrow> False))"
| "malformed_node v = False"

fun well_typed_node :: "pyval \<Rightarrow> bool" where
  "well_typed_node (PDict content) =
     (qualifies content \<longrightarrow>
      (case dict_find content (PStr ''image'') of None \<Rightarrow> True | Some img \<Rightarrow> is_dict img))"
| "well_typed_node v = False"

fun body_content :: "pyval \<Rightarrow> pyval" where
  "body_content (PDict obj) =
     (let c = dget obj ''content'' in if truthy c then c else PDict [])"
| "body_content v = PNone"

fun well_typed_body :: "pyval \<Rightarrow> bool" where
  "well_typed_body (PDict obj) = well_typed_node (body_content (PDict obj))"
| "well_typed_body v = False"

definition image_key_error :: "error + 'a \<Rightarrow> bool" where
  "image_key_error r =
     (case r of
        Inl err \<Rightarrow> err = KeyError (PStr ''image'') \<or> err = KeyError (PStr ''svtId'')
      | Inr v \<Rightarrow> False)"


text \<open>
  A qualifying node from which line 416 cannot read \<^verbatim>\<open>image.svtId\<close>: the \<^verbatim>\<open>image\<close> is
  missing, is a dictionary without \<^verbatim>\<open>svtId\<close>, or is not a dictionary at all.
\<close>

fun broken_node :: "pyval \<Rightarrow> bool" where
  "broken_node (PDict content) =
     (qualifies content \<and>
      (case dict_find content (PStr ''image'') of
         None \<Rightarrow> True
       | Some (PDict img) \<Rightarrow> dict_find img (PStr ''svtId'') = None
       | Some v \<Rightarrow> True))"
| "broken_node v = False"

section \<open>Lemmas about dictionaries and merging\<close>

lemma py_eq_PStr [simp]: "py_eq a (PStr s) = (a = PStr s)"
  by (cases a) auto

lemma py_eq_PStr_left [simp]: "py_eq (PStr s) a = (a = PStr s)"
  by (cases a) auto

lemma dict_find_dict_set_any:
  "dict_find (dict_set d (PStr s) v) k = (if k = PStr s then Some v else dict_find d k)"
  by (induction d) auto

lemma dict_find_merge_dicts_any:
  "distinct (map fst upd) \<Longrightarrow> list_all is_str (map fst upd) \<Longrightarrow>
   dict_find (merge_dicts base upd) k =
     (case map_of upd k of
        Some v \<Rightarrow> if non_empty v then Some v else dict_find base k
      | None \<Rightarrow> dict_find base k)"
proof (induction upd arbitrary: base)
  case Nil
  then show ?case by simp
next
  case (Cons kv upd)
  obtain k0 v0 where kv: "kv = (k0, v0)" by (cases kv)
  from Cons.prems kv obtain s where k0: "k0 = PStr s" by (cases k0) auto
  have notin: "map_of upd (PStr s) = None"
    using Cons.prems kv k0 by (simp add: map_of_eq_None_iff)
  have IH: "dict_find (merge_dicts b upd) k =
     (case map_of upd k of
        Some v \<Rightarrow> if non_empty v then Some v else dict_find b k
      | None \<Rightarrow> dict_find b k)" for b
    using Cons.IH[of b] Cons.prems by simp
  show ?case
  proof (cases "k = PStr s")
    case True
    then show ?thesis using IH notin kv k0 by (simp add: dict_find_dict_set_any)
  next
    case False
    then show ?thesis using IH kv k0
      by (cases "map_of upd k") (auto simp add: dict_find_dict_set_any)
  qed
qed

lemma derived_fields_keys:
  "map fst (derived_fields e vi th) =
     map PStr [''title'', ''thumbnail'', ''description'', ''timestamp'', ''duration'',
       ''age_limit'', ''series'', ''season_number'', ''episode'', ''episode_number'']"
  by (simp add: derived_fields_def)

lemma derived_fields_wf:
  "distinct (map fst (derived_fields e vi th)) \<and> list_all is_str (map fst (derived_fields e vi th))"
  unfolding derived_fields_keys by simp

lemma extract_metadata_lookup:
  assumes "extract_metadata e info vi = Inr out"
  shows "\<exists>th. thumbnail_of vi = Inr th \<and> (\<forall>k. 
   dict_find out k =
     (case map_of (derived_fields e vi th) k of
        Some v \<Rightarrow> if non_empty v then Some v else dict_find info k
      | None \<Rightarrow> dict_find info k))"
proof (cases "thumbnail_of vi")
  case (Inl err)
  with assms show ?thesis by (simp add: extract_metadata_def)
next
  case (Inr th)
  with assms have out: "out = merge_dicts info (derived_fields e vi th)"
    by (simp add: extract_metadata_def)
  show ?thesis
    using Inr derived_fields_wf[of e vi th]
    by (simp add: out dict_find_merge_dicts_any)
qed

lemma map_of_age_limit:
  "map_of (derived_fields e vi th) (PStr ''age_limit'') = Some (age_limit_of vi)"
  by (simp add: derived_fields_def)


lemma extract_video_Inr:
  assumes "extract_video e vi video_id = (Inr out, calls)"
  shows "\<exists>formats formats' subtitles.
           extract_formats e vi video_id = (Inr formats, calls) \<and>
           geo_check vi formats = Inr () \<and>
           sort_formats e formats = Inr formats' \<and>
           extract_subtitles e vi = Inr subtitles \<and>
           extract_metadata e
             [(PStr ''id'', PStr video_id), (PStr ''formats'', PList formats'),
              (PStr ''subtitles'', PDict subtitles), (PStr ''is_live'', is_live_of vi)] vi = Inr out"
proof -
  obtain r cs where ef: "extract_formats e vi video_id = (r, cs)"
    by (cases "extract_formats e vi video_id")
  show ?thesis
  proof (cases r)
    case (Inl err)
    with assms ef show ?thesis by (simp add: extract_video_def)
  next
    case fs: (Inr formats)
    show ?thesis
    proof (cases "geo_check vi formats")
      case (Inl err)
      with assms ef fs show ?thesis by (simp add: extract_video_def)
    next
      case g: (Inr u)
      show ?thesis
      proof (cases "sort_formats e formats")
        case (Inl err)
        with assms ef fs g show ?thesis by (simp add: extract_video_def)
      next
        case sf: (Inr formats')
        show ?thesis
        proof (cases "extract_subtitles e vi")
          case (Inl err)
          with assms ef fs g sf show ?thesis by (simp add: extract_video_def)
        next
          case (Inr subtitles)
          with assms ef fs g sf show ?thesis by (simp add: extract_video_def)
        qed
      qed
    qed
  qed
qed

lemma age_limit_of_cases:
  "age_limit_of vi = PNone \<or> age_limit_of vi = PInt 18 \<or> age_limit_of vi = PInt 0"
  by (simp add: age_limit_of_def Let_def)

section \<open>Lemmas about the geo restriction error\<close>

lemma is_geo_error_simps [simp]:
  "is_geo_error (GeoRestrictedError m cs)" "\<not> is_geo_error (KeyError k)"
  "\<not> is_geo_error TypeError" "\<not> is_geo_error AttributeError" "\<not> is_geo_error IndexError"
  "\<not> is_geo_error (ExtractorError s)"
  by (simp_all add: is_geo_error_def)

lemma video_reference_no_geo:
  assumes "\<And>x. no_geo_error (determine_ext e x)"
  shows "fst (video_reference e p vid vr) \<noteq> Inl (GeoRestrictedError m cs)"
proof (cases vr)
  case (PDict d)
  show ?thesis
  proof (cases "dict_find d (PStr ''url'')")
    case None
    with PDict show ?thesis by simp
  next
    case (Some vurl)
    show ?thesis
    proof (cases "determine_ext e vurl")
      case (Inl err)
      with assms[of vurl] have "err \<noteq> GeoRestrictedError m cs"
        by (auto simp: no_geo_error_def)
      with PDict Some Inl show ?thesis by simp
    next
      case (Inr ext)
      with PDict Some show ?thesis
        by (cases vurl) (simp_all add: Let_def)
    qed
  qed
qed simp_all

lemma video_references_no_geo:
  assumes "\<And>x. no_geo_error (determine_ext e x)"
  shows "fst (video_references e p vid vrs formats calls) \<noteq> Inl (GeoRestrictedError m cs)"
proof (induction vrs arbitrary: formats calls)
  case Nil
  then show ?case by simp
next
  case (Cons vr vrs)
  obtain r c where vr: "video_reference e p vid vr = (r, c)"
    by (cases "video_reference e p vid vr")
  show ?case
  proof (cases r)
    case (Inl err)
    with vr video_reference_no_geo[OF assms, of p vid vr m cs] show ?thesis by simp
  next
    case (Inr fs)
    with vr Cons.IH show ?thesis by simp
  qed
qed

lemma getitem_no_geo: "getitem v k \<noteq> Inl (GeoRestrictedError m cs)"
  by (cases v) (simp_all split: option.splits)

lemma py_iter_no_geo: "py_iter v \<noteq> Inl (GeoRestrictedError m cs)"
  by (cases v) simp_all

lemma extract_formats_no_geo:
  assumes "\<And>x. no_geo_error (determine_ext e x)"
  shows "fst (extract_formats e vi vid) \<noteq> Inl (GeoRestrictedError m cs)"
proof (cases "getitem (PDict vi) ''videoReferences''")
  case (Inl err)
  with getitem_no_geo[of "PDict vi" "''videoReferences''" m cs] show ?thesis
    by (simp add: extract_formats_def)
next
  case refs: (Inr refs)
  show ?thesis
  proof (cases "py_iter refs")
    case (Inl err)
    with refs py_iter_no_geo[of refs m cs] show ?thesis
      by (simp add: extract_formats_def)
  next
    case (Inr vrs)
    with refs video_references_no_geo[OF assms] show ?thesis
      by (simp add: extract_formats_def)
  qed
qed

lemma geo_check_geo:
  "geo_check vi formats = Inl (GeoRestrictedError m cs) \<longleftrightarrow>
     formats = [] \<and> geo_blocked vi = Inr True \<and>
     m = ''This video is only available in Sweden'' \<and> cs = [''SE'']"
proof (cases "geo_blocked vi")
  case (Inl err)
  then have "err = AttributeError"
    by (auto simp: geo_blocked_def split: pyval.splits)
  with Inl show ?thesis by (simp add: geo_check_def)
next
  case (Inr b)
  then show ?thesis by (cases b) (auto simp: geo_check_def GEO_COUNTRIES_def)
qed

lemma subtitle_reference_no_geo:
  assumes "\<And>x. no_geo_error (determine_ext e x)"
  shows "subtitle_reference e subs sr \<noteq> Inl (GeoRestrictedError m cs)"
proof (cases sr)
  case (PDict d)
  show ?thesis
  proof (cases "determine_ext e (dget d ''url'')")
    case (Inl err)
    with assms[of "dget d ''url''"] have "err \<noteq> GeoRestrictedError m cs"
      by (auto simp: no_geo_error_def)
    with PDict Inl show ?thesis by (simp add: Let_def)
  next
    case (Inr ext)
    with PDict show ?thesis by (simp add: Let_def)
  qed
qed simp_all

lemma subtitle_loop_no_geo:
  assumes "\<And>x. no_geo_error (determine_ext e x)"
  shows "subtitle_loop e subs srs \<noteq> Inl (GeoRestrictedError m cs)"
proof (induction srs arbitrary: subs)
  case Nil
  then show ?case by simp
next
  case (Cons sr srs)
  show ?case
  proof (cases "subtitle_reference e subs sr")
    case (Inl err)
    with subtitle_reference_no_geo[OF assms, of subs sr m cs] show ?thesis by simp
  next
    case (Inr subs')
    with Cons.IH show ?thesis by simp
  qed
qed

lemma extract_subtitles_no_geo:
  assumes "\<And>x. no_geo_error (determine_ext e x)"
  shows "extract_subtitles e vi \<noteq> Inl (GeoRestrictedError m cs)"
  using subtitle_loop_no_geo[OF assms]
  by (simp add: extract_subtitles_def split: pyval.splits)

lemma thumbnail_of_no_geo: "thumbnail_of vi \<noteq> Inl (GeoRestrictedError m cs)"
  by (cases "dget vi ''thumbnail''") (simp_all add: thumbnail_of_def Let_def)

lemma extract_metadata_no_geo: "extract_metadata e info vi \<noteq> Inl (GeoRestrictedError m cs)"
  using thumbnail_of_no_geo[of vi m cs]
  by (cases "thumbnail_of vi") (simp_all add: extract_metadata_def)

lemma simple_ext_no_geo: "no_geo_error (simple_ext x)"
  by (cases x) (simp_all add: no_geo_error_def)

section \<open>Lemmas about the loop over the references\<close>

lemma snd_extract_video:
  "snd (extract_video e vi vid) = snd (extract_formats e vi vid)"
  by (simp add: extract_video_def split: prod.splits sum.splits)

lemma video_reference_non_adaptive:
  "non_adaptive e r \<Longrightarrow> video_reference e p vid r = (Inr [direct_format r], [])"
  by (cases r) (auto simp: dget_def dget_default_def split: option.splits sum.splits)

lemma video_references_non_adaptive:
  "list_all (non_adaptive e) refs \<Longrightarrow>
   video_references e p vid refs formats calls = (Inr (formats @ map direct_format refs), calls)"
  by (induction refs arbitrary: formats calls) (simp_all add: video_reference_non_adaptive)

lemma video_reference_m3u8_calls:
  "M3U8 u v x q i \<in> set (snd (video_reference e p vid vr)) \<Longrightarrow> x = ''mp4'' \<and> q = p"
  by (cases vr) (auto simp: Let_def split: option.splits sum.splits if_splits pyval.splits)

lemma video_references_m3u8_calls:
  "M3U8 u v x q i \<in> set (snd (video_references e p vid vrs formats calls)) \<Longrightarrow>
   M3U8 u v x q i \<in> set calls \<or> (x = ''mp4'' \<and> q = p)"
proof (induction vrs arbitrary: formats calls)
  case Nil
  then show ?case by simp
next
  case (Cons vr vrs)
  obtain r cs where vr: "video_reference e p vid vr = (r, cs)"
    by (cases "video_reference e p vid vr")
  have one: "M3U8 u v x q i \<in> set cs \<Longrightarrow> x = ''mp4'' \<and> q = p"
    using video_reference_m3u8_calls[of u v x q i e p vid vr] vr by simp
  show ?case
  proof (cases r)
    case (Inl err)
    with Cons.prems vr one show ?thesis by auto
  next
    case (Inr fs)
    with Cons.prems vr have "M3U8 u v x q i \<in> set (calls @ cs) \<or> (x = ''mp4'' \<and> q = p)"
      using Cons.IH[of "formats @ fs" "calls @ cs"] by simp
    with one show ?thesis by auto
  qed
qed

lemma extract_formats_m3u8_calls:
  "M3U8 u v x q i \<in> set (snd (extract_formats e vi vid)) \<Longrightarrow>
   x = ''mp4'' \<and> q = m3u8_protocol_of (is_live_of vi)"
  using video_references_m3u8_calls[of u v x q i e "m3u8_protocol_of (is_live_of vi)" vid _ "[]" "[]"]
  by (auto simp: extract_formats_def split: sum.splits)

lemma truthy_dict_get_skip:
  "truthy (dict_get d ks (PBool False) True) = (\<exists>k \<in> set ks. truthy (dget d k))"
  by (induction ks) (auto simp: dget_def dget_default_def split: option.splits)

lemma video_reference_lacks_url:
  "lacks_url r \<Longrightarrow> video_reference e p vid r = (Inl (KeyError (PStr ''url'')), [])"
  by (cases r) simp_all

lemma video_reference_well_typed:
  assumes "well_typed_reference e r" and "\<not> lacks_url r"
  shows "\<exists>fs cs. video_reference e p vid r = (Inr fs, cs)"
proof -
  from assms obtain vr vurl ext where r: "r = PDict vr"
    and url: "dict_find vr (PStr ''url'') = Some vurl"
    and ext: "determine_ext e vurl = Inr ext"
    and str: "is_str vurl"
    by (cases r) (auto split: option.splits sum.splits)
  from str obtain u where "vurl = PStr u" by (cases vurl) auto
  with r url ext show ?thesis by (simp add: Let_def)
qed

lemma video_references_lacks_url:
  "list_all (well_typed_reference e) vrs \<Longrightarrow> \<exists>r \<in> set vrs. lacks_url r \<Longrightarrow>
   fst (video_references e p vid vrs formats calls) = Inl (KeyError (PStr ''url''))"
proof (induction vrs arbitrary: formats calls)
  case Nil
  then show ?case by simp
next
  case (Cons r vrs)
  show ?case
  proof (cases "lacks_url r")
    case True
    then show ?thesis by (simp add: video_reference_lacks_url)
  next
    case False
    with Cons.prems obtain fs cs where ok: "video_reference e p vid r = (Inr fs, cs)"
      using video_reference_well_typed[of e r p vid] by auto
    from False Cons.prems have "\<exists>r \<in> set vrs. lacks_url r" by auto
    with Cons.IH[of "formats @ fs" "calls @ cs"] Cons.prems ok show ?thesis by simp
  qed
qed

section \<open>Lemmas about the subtitles\<close>

lemma py_eq_sym: "py_eq a b = py_eq b a"
  by (cases a; cases b) auto

lemma py_eq_trans: "py_eq a b \<Longrightarrow> py_eq b c \<Longrightarrow> py_eq a c"
  by (cases a; cases b; cases c) (auto split: if_splits)

lemma add_tracks_append: "add_tracks (add_tracks v xs) ys = add_tracks v (xs @ ys)"
  by (cases "(v, xs)" rule: add_tracks.cases) auto

lemma add_tracks_Nil [simp]: "add_tracks v [] = v"
  by (cases "(v, [] :: pyval list)" rule: add_tracks.cases) auto

lemma dict_find_setdefault_append:
  "dict_find (setdefault_append d k x) l =
     (if py_eq k l then add_tracks (dict_find d l) [x] else dict_find d l)"
proof (induction d)
  case Nil
  then show ?case by simp
next
  case (Cons kv d)
  obtain k' v where kv: "kv = (k', v)" by (cases kv)
  show ?case
  proof (cases "py_eq k' k")
    case True
    have "py_eq k' l = py_eq k l"
      using True py_eq_trans[of k' k l] py_eq_trans[of k k' l] py_eq_sym[of k k'] by blast
    with True kv show ?thesis
      by (cases v) auto
  next
    case False
    have "py_eq k' l \<Longrightarrow> \<not> py_eq k l"
      using False py_eq_trans[of k' l k] py_eq_sym[of k l] by blast
    with False kv Cons.IH show ?thesis by auto
  qed
qed

lemma tracks_of_Cons:
  "tracks_of e l (sr # srs) = tracks_of e l [sr] @ tracks_of e l srs"
  by (simp add: tracks_of_def)

lemma subtitle_reference_result:
  assumes "well_typed_subtitle e sr"
  shows "\<exists>out. subtitle_reference e subs sr = Inr out \<and>
           (\<forall>l. dict_find out l = add_tracks (dict_find subs l) (tracks_of e l [sr]))"
proof -
  from assms obtain d where sr: "sr = PDict d" by (cases sr) auto
  show ?thesis
  proof (cases "truthy (sub_url d)")
    case False
    with sr show ?thesis by (simp add: tracks_of_def sub_url_def)
  next
    case True
    with assms sr obtain ext where ext: "determine_ext e (sub_url d) = Inr ext"
      and h: "hashable (sub_lang d)"
      by (auto split: sum.splits)
    show ?thesis
    proof (cases "ext = ''m3u8''")
      case True
      with sr ext \<open>truthy (sub_url d)\<close> show ?thesis
        by (simp add: tracks_of_def sub_url_def)
    next
      case False
      with sr ext h \<open>truthy (sub_url d)\<close> show ?thesis
        by (simp add: tracks_of_def sub_url_def sub_lang_def dict_find_setdefault_append)
    qed
  qed
qed

lemma subtitle_loop_result:
  "list_all (well_typed_subtitle e) srs \<Longrightarrow>
   \<exists>out. subtitle_loop e subs srs = Inr out \<and>
     (\<forall>l. dict_find out l = add_tracks (dict_find subs l) (tracks_of e l srs))"
proof (induction srs arbitrary: subs)
  case Nil
  then show ?case by (simp add: tracks_of_def)
next
  case (Cons sr srs)
  from Cons.prems have wt: "well_typed_subtitle e sr" and rest: "list_all (well_typed_subtitle e) srs"
    by simp_all
  from subtitle_reference_result[OF wt, of subs] obtain mid where
    mid: "subtitle_reference e subs sr = Inr mid"
    and midl: "\<And>l. dict_find mid l = add_tracks (dict_find subs l) (tracks_of e l [sr])"
    by blast
  from Cons.IH[OF rest, of mid] obtain out where
    out: "subtitle_loop e mid srs = Inr out"
    and outl: "\<And>l. dict_find out l = add_tracks (dict_find mid l) (tracks_of e l srs)"
    by blast
  have "dict_find out l = add_tracks (dict_find subs l) (tracks_of e l (sr # srs))" for l
    using outl[of l] midl[of l] tracks_of_Cons[of e l sr srs] by (simp add: add_tracks_append)
  with mid out show ?case by simp
qed

lemma tracks_of_member:
  "t \<in> set (tracks_of e l srs) \<Longrightarrow>
   \<exists>sr. PDict sr \<in> set srs \<and> t = PDict [(PStr ''url'', sub_url sr)] \<and>
        truthy (sub_url sr) \<and> determine_ext e (sub_url sr) \<noteq> Inr ''m3u8''"
proof -
  assume "t \<in> set (tracks_of e l srs)"
  then obtain r where r: "r \<in> set srs" "sub_kept e r" "t = sub_track r"
    by (auto simp: tracks_of_def)
  from r(2) obtain sr where "r = PDict sr" by (cases r) auto
  with r show ?thesis by auto
qed

section \<open>Lemmas about the content nodes of an article\<close>

lemma process_content_malformed:
  "malformed_node n \<Longrightarrow> image_key_error (process_content e entries n)"
  by (cases n)
    (auto simp: qualifies_def image_key_error_def Let_def split: option.splits pyval.splits)

lemma process_content_well_typed:
  "well_typed_node n \<Longrightarrow> \<not> malformed_node n \<Longrightarrow> \<exists>entries'. process_content e entries n = Inr entries'"
  by (cases n)
    (auto simp: qualifies_def Let_def split: option.splits pyval.splits)

lemma media_loop_malformed:
  "list_all well_typed_node ns \<Longrightarrow> \<exists>n \<in> set ns. malformed_node n \<Longrightarrow>
   image_key_error (media_loop e entries ns)"
proof (induction ns arbitrary: entries)
  case Nil
  then show ?case by simp
next
  case (Cons n ns)
  show ?case
  proof (cases "malformed_node n")
    case True
    from process_content_malformed[OF True, of e entries] show ?thesis
      by (auto simp: image_key_error_def split: sum.splits)
  next
    case False
    with Cons.prems obtain entries' where "process_content e entries n = Inr entries'"
      using process_content_well_typed[of n e entries] by auto
    moreover from False Cons.prems have "\<exists>n \<in> set ns. malformed_node n" by auto
    ultimately show ?thesis using Cons.IH[of entries'] Cons.prems by simp
  qed
qed

lemma media_loop_well_typed:
  "list_all well_typed_node ns \<Longrightarrow> \<not> (\<exists>n \<in> set ns. malformed_node n) \<Longrightarrow>
   \<exists>entries'. media_loop e entries ns = Inr entries'"
proof (induction ns arbitrary: entries)
  case Nil
  then show ?case by simp
next
  case (Cons n ns)
  then obtain entries' where "process_content e entries n = Inr entries'"
    using process_content_well_typed[of n e entries] by auto
  with Cons show ?case by simp
qed

lemma structured_body_content_well_typed:
  "well_typed_body b \<Longrightarrow> structured_body_content b = Inr (body_content b)"
  by (cases b) (simp_all add: Let_def)

lemma structured_body_loop_malformed:
  "list_all well_typed_body bs \<Longrightarrow> \<exists>b \<in> set bs. malformed_node (body_content b) \<Longrightarrow>
   image_key_error (structured_body_loop e entries bs)"
proof (induction bs arbitrary: entries)
  case Nil
  then show ?case by simp
next
  case (Cons b bs)
  from Cons.prems have sc: "structured_body_content b = Inr (body_content b)"
    and wt: "well_typed_node (body_content b)"
    by (cases b; simp add: Let_def)+
  show ?case
  proof (cases "malformed_node (body_content b)")
    case True
    from process_content_malformed[OF True, of e entries] sc show ?thesis
      by (auto simp: image_key_error_def split: sum.splits)
  next
    case False
    with wt obtain entries' where "process_content e entries (body_content b) = Inr entries'"
      using process_content_well_typed[of "body_content b" e entries] by auto
    moreover from False Cons.prems have "\<exists>b \<in> set bs. malformed_node (body_content b)" by auto
    ultimately show ?thesis using Cons.IH[of entries'] Cons.prems sc by simp
  qed
qed

lemma process_content_broken:
  "broken_node n \<Longrightarrow> \<exists>err. process_content e entries n = Inl err"
  by (cases n)
    (auto simp: qualifies_def Let_def split: option.splits pyval.splits)

lemma media_loop_broken:
  "\<exists>n \<in> set ns. broken_node n \<Longrightarrow> \<exists>err. media_loop e entries ns = Inl err"
proof (induction ns arbitrary: entries)
  case Nil
  then show ?case by simp
next
  case (Cons n ns)
  show ?case
  proof (cases "process_content e entries n")
    case (Inl err)
    then show ?thesis by simp
  next
    case (Inr entries')
    with process_content_broken[of n e entries] have "\<not> broken_node n" by auto
    with Cons.prems have "\<exists>n \<in> set ns. broken_node n" by auto
    with Cons.IH[of entries'] Inr show ?thesis by simp
  qed
qed

lemma structured_body_loop_broken:
  "\<exists>b \<in> set bs. is_dict b \<and> broken_node (body_content b) \<Longrightarrow>
   \<exists>err. structured_body_loop e entries bs = Inl err"
proof (induction bs arbitrary: entries)
  case Nil
  then show ?case by simp
next
  case (Cons b bs)
  show ?case
  proof (cases "structured_body_content b")
    case (Inl err)
    then show ?thesis by simp
  next
    case sc: (Inr content)
    show ?thesis
    proof (cases "process_content e entries content")
      case (Inl err)
      with sc show ?thesis by simp
    next
      case (Inr entries')
      have "\<not> (is_dict b \<and> broken_node (body_content b))"
      proof
        assume h: "is_dict b \<and> broken_node (body_content b)"
        then obtain obj where "b = PDict obj" by (cases b) auto
        with sc have "content = body_content b" by (simp add: Let_def)
        with h process_content_broken[of content e entries] Inr show False by auto
      qed
      with Cons.prems have "\<exists>b \<in> set bs. is_dict b \<and> broken_node (body_content b)" by auto
      with Cons.IH[of entries'] sc Inr show ?thesis by simp
    qed
  qed
qed

lemma article_playlist_media_broken:
  assumes "py_iter (dget_default article ''media'' (PList [])) = Inr ms"
    and "\<exists>n \<in> set ms. broken_node n"
  shows "\<exists>err. article_playlist e article = Inl err"
proof -
  from media_loop_broken[OF assms(2), of e "[]"] obtain err where
    "media_loop e [] ms = Inl err" by blast
  with assms(1) show ?thesis by (simp add: article_playlist_def)
qed

lemma article_playlist_body_broken:
  assumes "py_iter (dget_default article ''structuredBody'' (PList [])) = Inr bs"
    and "\<exists>b \<in> set bs. is_dict b \<and> broken_node (body_content b)"
  shows "\<exists>err. article_playlist e article = Inl err"
proof (cases "py_iter (dget_default article ''media'' (PList []))")
  case (Inl err)
  then show ?thesis by (simp add: article_playlist_def)
next
  case ms: (Inr ms)
  show ?thesis
  proof (cases "media_loop e [] ms")
    case (Inl err)
    with ms show ?thesis by (simp add: article_playlist_def)
  next
    case (Inr entries)
    from structured_body_loop_broken[OF assms(2), of e entries] obtain err where
      "structured_body_loop e entries bs = Inl err" by blast
    with ms Inr assms(1) show ?thesis by (simp add: article_playlist_def)
  qed
qed

section \<open>Lemmas about the item that is returned\<close>

lemma geo_blocked_document:
  "geo_blocked video_info = Inr True \<longleftrightarrow>
     (\<exists>rights flag. dict_find video_info (PStr ''rights'') = Some (PDict rights) \<and>
        dict_find rights (PStr ''geoBlockedSweden'') = Some flag \<and> truthy flag)"
proof (cases "dict_find video_info (PStr ''rights'')")
  case None
  then show ?thesis by (simp add: geo_blocked_def dget_default_def dget_def)
next
  case (Some r)
  show ?thesis
  proof (cases r)
    case (PDict rights)
    with Some show ?thesis
      by (cases "dict_find rights (PStr ''geoBlockedSweden'')")
        (simp_all add: geo_blocked_def dget_default_def dget_def)
  qed (use Some in \<open>simp_all add: geo_blocked_def dget_default_def\<close>)
qed

lemma extract_video_formats:
  assumes "extract_video e vi video_id = (Inr out, calls)"
  shows "\<exists>formats formats'. extract_formats e vi video_id = (Inr formats, calls) \<and>
           sort_formats e formats = Inr formats' \<and>
           dict_find out (PStr ''formats'') = Some (PList formats')"
proof -
  from extract_video_Inr[OF assms] obtain formats formats' subtitles where
    ef: "extract_formats e vi video_id = (Inr formats, calls)"
    and sf: "sort_formats e formats = Inr formats'"
    and em: "extract_metadata e
             [(PStr ''id'', PStr video_id), (PStr ''formats'', PList formats'),
              (PStr ''subtitles'', PDict subtitles), (PStr ''is_live'', is_live_of vi)] vi = Inr out"
    by blast
  from extract_metadata_lookup[OF em] obtain th where
    look: "\<And>k. dict_find out k =
     (case map_of (derived_fields e vi th) k of
        Some v \<Rightarrow> if non_empty v then Some v
          else dict_find [(PStr ''id'', PStr video_id), (PStr ''formats'', PList formats'),
              (PStr ''subtitles'', PDict subtitles), (PStr ''is_live'', is_live_of vi)] k
      | None \<Rightarrow> dict_find [(PStr ''id'', PStr video_id), (PStr ''formats'', PList formats'),
              (PStr ''subtitles'', PDict subtitles), (PStr ''is_live'', is_live_of vi)] k)"
    by blast
  have "map_of (derived_fields e vi th) (PStr ''formats'') = None"
    by (simp add: derived_fields_def)
  with look[of "PStr ''formats''"] have "dict_find out (PStr ''formats'') = Some (PList formats')"
    by simp
  with ef sf show ?thesis by blast
qed

lemma extract_video_succeeds:
  assumes "extract_formats e vi video_id = (Inr formats, calls)" and "formats \<noteq> []"
    and "sort_formats e formats = Inr formats'" and "extract_subtitles e vi = Inr subtitles"
    and "thumbnail_of vi = Inr th"
  shows "\<exists>out. extract_video e vi video_id = (Inr out, calls)"
  using assms by (simp add: extract_video_def geo_check_def extract_metadata_def)

section \<open>Merging the metadata\<close>

text \<open>
  C1: in the merge of \<^verbatim>\<open>_extract_metadata\<close>, every derived field that is present and
  non-empty overwrites the field of the base item, every other derived field and every key
  that is not derived keeps the value of the base item; and when the page data holds a
  \<^verbatim>\<open>videoPage.video\<close> dictionary, \<^verbatim>\<open>SVTPlayIE\<close> runs this merge with the item built so
  far as the base, so the fields derived from the page take precedence.
\<close>

theorem metadata_merge:
  "(\<forall>out. extract_metadata e base raw = Inr out \<longrightarrow>
      (\<exists>thumbnail. thumbnail_of raw = Inr thumbnail \<and>
         (\<forall>k v. (k, v) \<in> set (derived_fields e raw thumbnail) \<and> non_empty v \<longrightarrow>
                 dict_find out k = Some v) \<and>
         (\<forall>k v. (k, v) \<in> set (derived_fields e raw thumbnail) \<and> \<not> non_empty v \<longrightarrow>
                 dict_find out k = dict_find base k) \<and>
         (\<forall>k. k \<notin> fst ` set (derived_fields e raw thumbnail) \<longrightarrow>
                 dict_find out k = dict_find base k))) \<and>
   (\<forall>data video_data.
      truthy data \<and> try_get data [[''videoPage'', ''video'']] is_dict = PDict video_data \<and>
      video_data \<noteq> [] \<longrightarrow>
      video_page_metadata e data base = extract_metadata e base video_data)"
proof -
  have m: "\<exists>thumbnail. thumbnail_of raw = Inr thumbnail \<and>
         (\<forall>k v. (k, v) \<in> set (derived_fields e raw thumbnail) \<and> non_empty v \<longrightarrow>
                 dict_find out k = Some v) \<and>
         (\<forall>k v. (k, v) \<in> set (derived_fields e raw thumbnail) \<and> \<not> non_empty v \<longrightarrow>
                 dict_find out k = dict_find base k) \<and>
         (\<forall>k. k \<notin> fst ` set (derived_fields e raw thumbnail) \<longrightarrow>
                 dict_find out k = dict_find base k)"
    if em: "extract_metadata e base raw = Inr out" for out
  proof -
    from extract_metadata_lookup[OF em] obtain th where
      th: "thumbnail_of raw = Inr th" and
      look: "\<And>k. dict_find out k =
        (case map_of (derived_fields e raw th) k of
           Some v \<Rightarrow> if non_empty v then Some v else dict_find base k
         | None \<Rightarrow> dict_find base k)"
      by blast
    have d: "distinct (map fst (derived_fields e raw th))"
      using derived_fields_wf by blast
    have a: "dict_find out k = Some v"
      if "(k, v) \<in> set (derived_fields e raw th)" "non_empty v" for k v
      using that look[of k] d by simp
    have b: "dict_find out k = dict_find base k"
      if "(k, v) \<in> set (derived_fields e raw th)" "\<not> non_empty v" for k v
      using that look[of k] d by simp
    have c: "dict_find out k = dict_find base k"
      if "k \<notin> fst ` set (derived_fields e raw th)" for k
    proof -
      from that have "map_of (derived_fields e raw th) k = None"
        by (simp add: map_of_eq_None_iff)
      then show ?thesis using look[of k] by simp
    qed
    show ?thesis using th a b c by blast
  qed
  have s: "video_page_metadata e data base = extract_metadata e base video_data"
    if "truthy data" "try_get data [[''videoPage'', ''video'']] is_dict = PDict video_data"
       "video_data \<noteq> []" for data video_data
    using that by (simp add: video_page_metadata_def)
  show ?thesis using m s by blast
qed

theorem metadata_merge_witness:
  "extract_metadata test_env
     [(PStr ''id'', PStr ''KyVERRZ''), (PStr ''title'', PStr ''Avsnitt 8''),
      (PStr ''description'', PStr ''Om Kim''), (PStr ''duration'', PInt 820)]
     [(PStr ''title'', PStr ''Del 8 av 10''), (PStr ''description'', PStr []),
      (PStr ''thumbnail'', PStr ''http://svt.se/{format}/a.jpg'')] =
   Inr [(PStr ''id'', PStr ''KyVERRZ''), (PStr ''title'', PStr ''Del 8 av 10''),
        (PStr ''description'', PStr ''Om Kim''), (PStr ''duration'', PInt 820),
        (PStr ''thumbnail'', PStr ''http://svt.se/extralarge/a.jpg'')] \<and>
   dict_find [(PStr ''id'', PStr ''KyVERRZ''), (PStr ''title'', PStr ''Del 8 av 10''),
        (PStr ''description'', PStr ''Om Kim''), (PStr ''duration'', PInt 820),
        (PStr ''thumbnail'', PStr ''http://svt.se/extralarge/a.jpg'')] (PStr ''title'') =
     Some (PStr ''Del 8 av 10'') \<and>
   dict_find [(PStr ''id'', PStr ''KyVERRZ''), (PStr ''title'', PStr ''Del 8 av 10''),
        (PStr ''description'', PStr ''Om Kim''), (PStr ''duration'', PInt 820),
        (PStr ''thumbnail'', PStr ''http://svt.se/extralarge/a.jpg'')] (PStr ''description'') =
     Some (PStr ''Om Kim'') \<and>
   dict_find [(PStr ''id'', PStr ''KyVERRZ''), (PStr ''title'', PStr ''Del 8 av 10''),
        (PStr ''description'', PStr ''Om Kim''), (PStr ''duration'', PInt 820),
        (PStr ''thumbnail'', PStr ''http://svt.se/extralarge/a.jpg'')] (PStr ''id'') =
     Some (PStr ''KyVERRZ'') \<and>
   video_page_metadata test_env
     (PDict [(PStr ''videoPage'', PDict [(PStr ''video'',
        PDict [(PStr ''title'', PStr ''Del 8 av 10''), (PStr ''description'', PStr []),
               (PStr ''thumbnail'', PStr ''http://svt.se/{format}/a.jpg'')])])])
     [(PStr ''id'', PStr ''KyVERRZ''), (PStr ''title'', PStr ''Avsnitt 8''),
      (PStr ''description'', PStr ''Om Kim''), (PStr ''duration'', PInt 820)] =
   Inr [(PStr ''id'', PStr ''KyVERRZ''), (PStr ''title'', PStr ''Del 8 av 10''),
        (PStr ''description'', PStr ''Om Kim''), (PStr ''duration'', PInt 820),
        (PStr ''thumbnail'', PStr ''http://svt.se/extralarge/a.jpg'')]"
  (is "?em = Inr ?out \<and> ?t \<and> ?d \<and> ?i \<and> ?vp = Inr ?out")
proof -
  let ?base = "[(PStr ''id'', PStr ''KyVERRZ''), (PStr ''title'', PStr ''Avsnitt 8''),
      (PStr ''description'', PStr ''Om Kim''), (PStr ''duration'', PInt 820)]"
  let ?raw = "[(PStr ''title'', PStr ''Del 8 av 10''), (PStr ''description'', PStr []),
      (PStr ''thumbnail'', PStr ''http://svt.se/{format}/a.jpg'')]"
  have em: "?em = Inr ?out"
    by (simp add: extract_metadata_def thumbnail_of_def derived_fields_def dget_def
        dget_default_def test_env_def age_limit_of_def non_empty_def)
  from metadata_merge[of test_env ?base ?raw, THEN conjunct1, rule_format, OF em]
  obtain th where th: "thumbnail_of ?raw = Inr th"
    and a: "\<And>k v. (k, v) \<in> set (derived_fields test_env ?raw th) \<Longrightarrow> non_empty v \<Longrightarrow>
                 dict_find ?out k = Some v"
    and b: "\<And>k v. (k, v) \<in> set (derived_fields test_env ?raw th) \<Longrightarrow> \<not> non_empty v \<Longrightarrow>
                 dict_find ?out k = dict_find ?base k"
    and c: "\<And>k. k \<notin> fst ` set (derived_fields test_env ?raw th) \<Longrightarrow>
                 dict_find ?out k = dict_find ?base k"
    by blast
  have t: ?t
    using a[of "PStr ''title''" "PStr ''Del 8 av 10''"]
    by (simp add: derived_fields_def dget_def dget_default_def non_empty_def)
  have d: ?d
    using b[of "PStr ''description''" "PStr []"]
    by (simp add: derived_fields_def dget_def dget_default_def non_empty_def)
  have i: ?i
    using c[of "PStr ''id''"] by (simp add: derived_fields_def)
  have vp: "?vp = ?em"
    using metadata_merge[of test_env ?base ?raw, THEN conjunct2, rule_format,
        of "PDict [(PStr ''videoPage'', PDict [(PStr ''video'', PDict ?raw)])]" ?raw]
    by simp
  show ?thesis using em t d i vp by simp
qed

section \<open>The geo restriction\<close>

text \<open>
  C2: \<^verbatim>\<open>_extract_video\<close> raises the geo restriction error if and only if the loop over
  the references has produced no format and the document has a \<^verbatim>\<open>rights\<close> dictionary whose
  \<^verbatim>\<open>geoBlockedSweden\<close> is true; the error then names Sweden as the only country. With at
  least one format the error is not raised, whatever the flag, and with no format it is not
  raised when the flag is false or missing. The collaborators are assumed not to raise this
  error themselves.
\<close>

theorem geo_restricted_iff:
  assumes "\<forall>x. no_geo_error (determine_ext e x)"
    and "\<forall>fs. no_geo_error (sort_formats e fs)"
  shows "fst (extract_video e video_info video_id) = Inl (GeoRestrictedError m cs) \<longleftrightarrow>
         fst (extract_formats e video_info video_id) = Inr [] \<and>
         (\<exists>rights flag. dict_find video_info (PStr ''rights'') = Some (PDict rights) \<and>
            dict_find rights (PStr ''geoBlockedSweden'') = Some flag \<and> truthy flag) \<and>
         m = ''This video is only available in Sweden'' \<and> cs = [''SE'']"
proof -
  have de: "\<And>x. no_geo_error (determine_ext e x)" using assms(1) by simp
  let ?flag = "\<exists>rights flag. dict_find video_info (PStr ''rights'') = Some (PDict rights) \<and>
            dict_find rights (PStr ''geoBlockedSweden'') = Some flag \<and> truthy flag"
  have gb: "geo_blocked video_info = Inr True \<longleftrightarrow> ?flag"
    by (rule geo_blocked_document)
  obtain r calls where ef: "extract_formats e video_info video_id = (r, calls)"
    by (cases "extract_formats e video_info video_id")
  have main: "fst (extract_video e video_info video_id) = Inl (GeoRestrictedError m cs) \<longleftrightarrow>
         fst (extract_formats e video_info video_id) = Inr [] \<and>
         geo_blocked video_info = Inr True \<and>
         m = ''This video is only available in Sweden'' \<and> cs = [''SE'']"
  proof (cases r)
    case (Inl err)
    with ef extract_formats_no_geo[OF de, of video_info video_id m cs] show ?thesis
      by (simp add: extract_video_def)
  next
    case fs: (Inr formats)
    show ?thesis
    proof (cases "geo_check video_info formats")
      case (Inl err)
      with ef fs geo_check_geo[of video_info formats m cs] show ?thesis
        by (auto simp: extract_video_def)
    next
      case g: (Inr u)
      with geo_check_geo[of video_info formats m cs]
      have ng: "\<not> (formats = [] \<and> geo_blocked video_info = Inr True \<and>
           m = ''This video is only available in Sweden'' \<and> cs = [''SE''])"
        by simp
      show ?thesis
      proof (cases "sort_formats e formats")
        case (Inl err)
        with assms(2) have "err \<noteq> GeoRestrictedError m cs"
          by (auto simp: no_geo_error_def dest: spec[of _ formats])
        with ef fs g Inl ng show ?thesis by (auto simp: extract_video_def)
      next
        case sf: (Inr formats')
        show ?thesis
        proof (cases "extract_subtitles e video_info")
          case (Inl err)
          with ef fs g sf ng extract_subtitles_no_geo[OF de, of video_info m cs] show ?thesis
            by (auto simp: extract_video_def)
        next
          case (Inr subtitles)
          with ef fs g sf ng
            extract_metadata_no_geo[of e _ video_info m cs]
          show ?thesis
            by (auto simp: extract_video_def)
        qed
      qed
    qed
  qed
  show ?thesis unfolding main gb ..
qed

theorem geo_restricted_iff_witness:
  "(\<forall>x. no_geo_error (determine_ext test_env x)) \<and>
   (\<forall>fs. no_geo_error (sort_formats test_env fs)) \<and>
   fst (extract_video test_env
     [(PStr ''videoReferences'', PList []),
      (PStr ''rights'', PDict [(PStr ''geoBlockedSweden'', PBool True)])] ''5219710'') =
     Inl (GeoRestrictedError ''This video is only available in Sweden'' [''SE'']) \<and>
   fst (extract_video test_env
     [(PStr ''videoReferences'', PList [PDict [(PStr ''url'', PStr ''http://svt.se/a.mp4'')]]),
      (PStr ''rights'', PDict [(PStr ''geoBlockedSweden'', PBool True)])] ''5219710'') \<noteq>
     Inl (GeoRestrictedError ''This video is only available in Sweden'' [''SE'']) \<and>
   fst (extract_video test_env
     [(PStr ''videoReferences'', PList []),
      (PStr ''rights'', PDict [(PStr ''geoBlockedSweden'', PBool False)])] ''5219710'') \<noteq>
     Inl (GeoRestrictedError ''This video is only available in Sweden'' [''SE'']) \<and>
   fst (extract_video test_env
     [(PStr ''videoReferences'', PList [])] ''5219710'') \<noteq>
     Inl (GeoRestrictedError ''This video is only available in Sweden'' [''SE''])"
proof -
  have h1: "\<forall>x. no_geo_error (determine_ext test_env x)"
    by (simp add: test_env_def simple_ext_no_geo)
  have h2: "\<forall>fs. no_geo_error (sort_formats test_env fs)"
    by (simp add: test_env_def no_geo_error_def)
  note t = geo_restricted_iff[OF h1 h2, where video_id = "''5219710''"
      and m = "''This video is only available in Sweden''" and cs = "[''SE'']"]
  have a: "fst (extract_video test_env
     [(PStr ''videoReferences'', PList []),
      (PStr ''rights'', PDict [(PStr ''geoBlockedSweden'', PBool True)])] ''5219710'') =
     Inl (GeoRestrictedError ''This video is only available in Sweden'' [''SE''])"
    unfolding t by (simp add: extract_formats_def)
  have b: "fst (extract_video test_env
     [(PStr ''videoReferences'', PList [PDict [(PStr ''url'', PStr ''http://svt.se/a.mp4'')]]),
      (PStr ''rights'', PDict [(PStr ''geoBlockedSweden'', PBool True)])] ''5219710'') \<noteq>
     Inl (GeoRestrictedError ''This video is only available in Sweden'' [''SE''])"
    unfolding t by (simp add: extract_formats_def test_env_def after_last_dot_def)
  have c: "fst (extract_video test_env
     [(PStr ''videoReferences'', PList []),
      (PStr ''rights'', PDict [(PStr ''geoBlockedSweden'', PBool False)])] ''5219710'') \<noteq>
     Inl (GeoRestrictedError ''This video is only available in Sweden'' [''SE''])"
    unfolding t by (simp add: extract_formats_def)
  have d: "fst (extract_video test_env
     [(PStr ''videoReferences'', PList [])] ''5219710'') \<noteq>
     Inl (GeoRestrictedError ''This video is only available in Sweden'' [''SE''])"
    unfolding t by (simp add: extract_formats_def)
  show ?thesis using h1 h2 a b c d by blast
qed

section \<open>The age limit\<close>

text \<open>
  C3: the age limit is computed from the first present of \<^verbatim>\<open>inappropriateForChildren\<close>
  and \<^verbatim>\<open>blockedForChildren\<close>, where false is not absent: a true value gives 18, a false
  value gives 0, and when both keys are absent the result is \<^verbatim>\<open>None\<close>. This is also the
  \<^verbatim>\<open>age_limit\<close> of every item that \<^verbatim>\<open>_extract_video\<close> returns.
\<close>

theorem age_limit_first_present:
  "(\<forall>v. dict_find vi (PStr ''inappropriateForChildren'') = Some v \<and> v \<noteq> PNone \<longrightarrow>
        age_limit_of vi = (if truthy v then PInt 18 else PInt 0)) \<and>
   (\<forall>v. absent vi ''inappropriateForChildren'' \<and>
        dict_find vi (PStr ''blockedForChildren'') = Some v \<and> v \<noteq> PNone \<longrightarrow>
        age_limit_of vi = (if truthy v then PInt 18 else PInt 0)) \<and>
   (absent vi ''inappropriateForChildren'' \<and> absent vi ''blockedForChildren'' \<longrightarrow>
        age_limit_of vi = PNone) \<and>
   (\<forall>e video_id out calls. extract_video e vi video_id = (Inr out, calls) \<longrightarrow>
        dget out ''age_limit'' = age_limit_of vi)"
proof -
  have out: "dget out ''age_limit'' = age_limit_of vi"
    if ev: "extract_video e vi video_id = (Inr out, calls)" for e video_id out calls
  proof -
    from extract_video_Inr[OF ev] obtain info where
      em: "extract_metadata e info vi = Inr out"
      and info: "dict_find info (PStr ''age_limit'') = None"
      by auto
    from extract_metadata_lookup[OF em] obtain th where
      "dict_find out (PStr ''age_limit'') =
        (if non_empty (age_limit_of vi) then Some (age_limit_of vi) else None)"
      by (auto simp: map_of_age_limit info)
    then show ?thesis
      using age_limit_of_cases[of vi]
      by (auto simp: dget_def dget_default_def non_empty_def)
  qed
  have a: "age_limit_of vi = (if truthy v then PInt 18 else PInt 0)"
    if "dict_find vi (PStr ''inappropriateForChildren'') = Some v" "v \<noteq> PNone" for v
    using that by (simp add: age_limit_of_def)
  have b: "age_limit_of vi = (if truthy v then PInt 18 else PInt 0)"
    if "absent vi ''inappropriateForChildren''"
       "dict_find vi (PStr ''blockedForChildren'') = Some v" "v \<noteq> PNone" for v
    using that by (auto simp: age_limit_of_def absent_def)
  have c: "age_limit_of vi = PNone"
    if "absent vi ''inappropriateForChildren''" "absent vi ''blockedForChildren''"
    using that by (auto simp: age_limit_of_def absent_def)
  show ?thesis using a b c out by blast
qed


theorem age_limit_first_present_witness:
  "age_limit_of [(PStr ''inappropriateForChildren'', PBool True)] = PInt 18 \<and>
   age_limit_of [(PStr ''inappropriateForChildren'', PNone),
                 (PStr ''blockedForChildren'', PBool False)] = PInt 0 \<and>
   age_limit_of [(PStr ''title'', PStr ''Rederiet'')] = PNone \<and>
   dget [(PStr ''id'', PStr ''1''),
         (PStr ''formats'', PList [PDict [(PStr ''format_id'', PNone),
                                          (PStr ''url'', PStr ''http://svt.se/a.mp4'')]]),
         (PStr ''subtitles'', PDict []), (PStr ''is_live'', PBool False),
         (PStr ''age_limit'', PInt 0)] ''age_limit'' =
     age_limit_of [(PStr ''inappropriateForChildren'', PBool False),
        (PStr ''blockedForChildren'', PBool True),
        (PStr ''videoReferences'', PList [PDict [(PStr ''url'', PStr ''http://svt.se/a.mp4'')]])]"
proof -
  have ev: "extract_video test_env
       [(PStr ''inappropriateForChildren'', PBool False),
        (PStr ''blockedForChildren'', PBool True),
        (PStr ''videoReferences'', PList [PDict [(PStr ''url'', PStr ''http://svt.se/a.mp4'')]])]
       ''1'' =
     (Inr [(PStr ''id'', PStr ''1''),
         (PStr ''formats'', PList [PDict [(PStr ''format_id'', PNone),
                                          (PStr ''url'', PStr ''http://svt.se/a.mp4'')]]),
         (PStr ''subtitles'', PDict []), (PStr ''is_live'', PBool False),
         (PStr ''age_limit'', PInt 0)], [])"
    by (simp add: extract_video_def extract_formats_def is_live_of_def m3u8_protocol_of_def
        player_type_of_def dget_def dget_default_def test_env_def after_last_dot_def
        geo_check_def extract_subtitles_def extract_metadata_def thumbnail_of_def
        derived_fields_def age_limit_of_def non_empty_def)
  have a: "age_limit_of [(PStr ''inappropriateForChildren'', PBool True)] = PInt 18"
    using age_limit_first_present[of "[(PStr ''inappropriateForChildren'', PBool True)]",
        THEN conjunct1, rule_format, of "PBool True"]
    by simp
  have b: "age_limit_of [(PStr ''inappropriateForChildren'', PNone),
                 (PStr ''blockedForChildren'', PBool False)] = PInt 0"
    using age_limit_first_present[of "[(PStr ''inappropriateForChildren'', PNone),
                 (PStr ''blockedForChildren'', PBool False)]",
        THEN conjunct2, THEN conjunct1, rule_format, of "PBool False"]
    by (simp add: absent_def)
  have c: "age_limit_of [(PStr ''title'', PStr ''Rederiet'')] = PNone"
    using age_limit_first_present[of "[(PStr ''title'', PStr ''Rederiet'')]",
        THEN conjunct2, THEN conjunct2, THEN conjunct1]
    by (simp add: absent_def)
  note d = age_limit_first_present[THEN conjunct2, THEN conjunct2, THEN conjunct2,
        rule_format, OF ev]
  show ?thesis using a b c d by simp
qed

section \<open>DASH references\<close>

text \<open>
  C4: for a reference whose URL has the extension \<^verbatim>\<open>mpd\<close>, the DASH decoder is called
  exactly when the player type of the reference is \<^verbatim>\<open>dashhbbtv\<close>, and the reference then
  contributes the formats of that call; with any other player type it contributes no format
  and no decoder is called.
\<close>

theorem mpd_reference:
  "dict_find vr (PStr ''url'') = Some vurl \<and> determine_ext e vurl = Inr ''mpd'' \<longrightarrow>
     (player_type_of vr = PStr ''dashhbbtv'' \<longrightarrow>
        video_reference e m3u8_protocol video_id (PDict vr) =
          (Inr (decode e (MPD vurl video_id (PStr ''dashhbbtv''))),
           [MPD vurl video_id (PStr ''dashhbbtv'')]) \<and>
        video_references e m3u8_protocol video_id (PDict vr # vrs) formats calls =
          video_references e m3u8_protocol video_id vrs
            (formats @ decode e (MPD vurl video_id (PStr ''dashhbbtv'')))
            (calls @ [MPD vurl video_id (PStr ''dashhbbtv'')])) \<and>
     (player_type_of vr \<noteq> PStr ''dashhbbtv'' \<longrightarrow>
        video_reference e m3u8_protocol video_id (PDict vr) = (Inr [], []) \<and>
        video_references e m3u8_protocol video_id (PDict vr # vrs) formats calls =
          video_references e m3u8_protocol video_id vrs formats calls)"
  by (simp add: Let_def)


theorem mpd_reference_witness:
  "video_reference test_env ''m3u8_native'' ''5996901''
     (PDict [(PStr ''url'', PStr ''http://svt.se/a.mpd''),
             (PStr ''playerType'', PStr ''dashhbbtv'')]) =
     (Inr [PDict [(PStr ''format_id'', PStr ''dashhbbtv''),
                  (PStr ''url'', PStr ''http://svt.se/a.mpd'')]],
      [MPD (PStr ''http://svt.se/a.mpd'') ''5996901'' (PStr ''dashhbbtv'')]) \<and>
   video_reference test_env ''m3u8_native'' ''5996901''
     (PDict [(PStr ''url'', PStr ''http://svt.se/a.mpd''),
             (PStr ''playerType'', PStr ''dash'')]) = (Inr [], [])"
proof -
  have ext: "determine_ext test_env (PStr ''http://svt.se/a.mpd'') = Inr ''mpd''"
    by (simp add: test_env_def after_last_dot_def)
  have a: "video_reference test_env ''m3u8_native'' ''5996901''
     (PDict [(PStr ''url'', PStr ''http://svt.se/a.mpd''),
             (PStr ''playerType'', PStr ''dashhbbtv'')]) =
     (Inr (decode test_env (MPD (PStr ''http://svt.se/a.mpd'') ''5996901'' (PStr ''dashhbbtv''))),
      [MPD (PStr ''http://svt.se/a.mpd'') ''5996901'' (PStr ''dashhbbtv'')])"
    using mpd_reference[of "[(PStr ''url'', PStr ''http://svt.se/a.mpd''),
             (PStr ''playerType'', PStr ''dashhbbtv'')]" "PStr ''http://svt.se/a.mpd''"
        test_env "''m3u8_native''" "''5996901''" "[]" "[]" "[]"] ext
    by (simp add: player_type_of_def dget_def dget_default_def Let_def)
  have b: "video_reference test_env ''m3u8_native'' ''5996901''
     (PDict [(PStr ''url'', PStr ''http://svt.se/a.mpd''),
             (PStr ''playerType'', PStr ''dash'')]) = (Inr [], [])"
    using mpd_reference[of "[(PStr ''url'', PStr ''http://svt.se/a.mpd''),
             (PStr ''playerType'', PStr ''dash'')]" "PStr ''http://svt.se/a.mpd''"
        test_env "''m3u8_native''" "''5996901''" "[]" "[]" "[]"] ext
    by (simp add: player_type_of_def dget_def dget_default_def Let_def)
  show ?thesis using a b by (simp add: test_env_def)
qed

section \<open>Subtitles\<close>

text \<open>
  C5: the subtitles are read from the first present of \<^verbatim>\<open>subtitles\<close> and
  \<^verbatim>\<open>subtitleReferences\<close> (an empty or false value counts as absent), and only a list is
  processed: any other shape gives the empty subtitle dictionary and no error. For a list
  of references of the expected shape, the result has for every language exactly the
  tracks of the references with a non-empty URL that is not an \<^verbatim>\<open>m3u8\<close> manifest, in the
  order of the references; the language of a reference without the key \<^verbatim>\<open>language\<close> is
  \<^verbatim>\<open>sv\<close>, and no \<^verbatim>\<open>m3u8\<close> URL is in the result.
\<close>

theorem subtitles_grouped_by_language:
  "(\<not> is_list (dict_get video_info [''subtitles'', ''subtitleReferences''] PNone True) \<longrightarrow>
      extract_subtitles e video_info = Inr []) \<and>
   (\<forall>srs. dict_get video_info [''subtitles'', ''subtitleReferences''] PNone True = PList srs \<and>
      list_all (well_typed_subtitle e) srs \<longrightarrow>
      (\<exists>subtitles. extract_subtitles e video_info = Inr subtitles \<and>
         (\<forall>l. dict_find subtitles l =
                (if tracks_of e l srs = [] then None else Some (PList (tracks_of e l srs)))) \<and>
         (\<forall>l ts t. dict_find subtitles l = Some (PList ts) \<and> t \<in> set ts \<longrightarrow>
            (\<exists>sr. PDict sr \<in> set srs \<and> t = PDict [(PStr ''url'', sub_url sr)] \<and>
                  truthy (sub_url sr) \<and> determine_ext e (sub_url sr) \<noteq> Inr ''m3u8'')))) \<and>
   (\<forall>sr. dict_find sr (PStr ''language'') = None \<longrightarrow> sub_lang sr = PStr ''sv'') \<and>
   (truthy (dget video_info ''subtitles'') \<longrightarrow>
      dict_get video_info [''subtitles'', ''subtitleReferences''] PNone True =
        dget video_info ''subtitles'') \<and>
   (\<not> truthy (dget video_info ''subtitles'') \<and> truthy (dget video_info ''subtitleReferences'') \<longrightarrow>
      dict_get video_info [''subtitles'', ''subtitleReferences''] PNone True =
        dget video_info ''subtitleReferences'') \<and>
   (\<not> truthy (dget video_info ''subtitles'') \<and>
    \<not> truthy (dget video_info ''subtitleReferences'') \<longrightarrow>
      dict_get video_info [''subtitles'', ''subtitleReferences''] PNone True = PNone)"
proof -
  let ?refs = "dict_get video_info [''subtitles'', ''subtitleReferences''] PNone True"
  have a: "extract_subtitles e video_info = Inr []" if "\<not> is_list ?refs"
    using that by (cases ?refs) (simp_all add: extract_subtitles_def del: dict_get.simps)
  have b: "\<exists>subtitles. extract_subtitles e video_info = Inr subtitles \<and>
         (\<forall>l. dict_find subtitles l =
                (if tracks_of e l srs = [] then None else Some (PList (tracks_of e l srs)))) \<and>
         (\<forall>l ts t. dict_find subtitles l = Some (PList ts) \<and> t \<in> set ts \<longrightarrow>
            (\<exists>sr. PDict sr \<in> set srs \<and> t = PDict [(PStr ''url'', sub_url sr)] \<and>
                  truthy (sub_url sr) \<and> determine_ext e (sub_url sr) \<noteq> Inr ''m3u8''))"
    if refs: "?refs = PList srs" and wt: "list_all (well_typed_subtitle e) srs" for srs
  proof -
    from subtitle_loop_result[OF wt, of "[]"] obtain out where
      out: "subtitle_loop e [] srs = Inr out"
      and outl: "\<And>l. dict_find out l = add_tracks None (tracks_of e l srs)"
      by auto
    have es: "extract_subtitles e video_info = Inr out"
      using refs out by (simp add: extract_subtitles_def del: dict_get.simps)
    have g: "dict_find out l =
        (if tracks_of e l srs = [] then None else Some (PList (tracks_of e l srs)))" for l
      using outl[of l] by simp
    have m: "\<exists>sr. PDict sr \<in> set srs \<and> t = PDict [(PStr ''url'', sub_url sr)] \<and>
                  truthy (sub_url sr) \<and> determine_ext e (sub_url sr) \<noteq> Inr ''m3u8''"
      if "dict_find out l = Some (PList ts)" "t \<in> set ts" for l ts t
    proof -
      from that g[of l] have "t \<in> set (tracks_of e l srs)" by (auto split: if_splits)
      then show ?thesis by (rule tracks_of_member)
    qed
    show ?thesis using es g m by blast
  qed
  have c: "sub_lang sr = PStr ''sv''" if "dict_find sr (PStr ''language'') = None" for sr
    using that by (simp add: sub_lang_def dget_default_def)
  have d: "truthy (dget video_info ''subtitles'') \<longrightarrow> ?refs = dget video_info ''subtitles''"
    by (auto simp: dget_def dget_default_def split: option.splits)
  have f: "\<not> truthy (dget video_info ''subtitles'') \<and> truthy (dget video_info ''subtitleReferences'') \<longrightarrow>
      ?refs = dget video_info ''subtitleReferences''"
    by (auto simp: dget_def dget_default_def split: option.splits)
  have g: "\<not> truthy (dget video_info ''subtitles'') \<and>
      \<not> truthy (dget video_info ''subtitleReferences'') \<longrightarrow> ?refs = PNone"
    by (auto simp: dget_def dget_default_def split: option.splits)
  show ?thesis using a b c d f g by blast
qed

theorem subtitles_grouped_by_language_witness:
  "extract_subtitles test_env
     [(PStr ''subtitles'', PDict [(PStr ''sv'', PStr ''http://svt.se/a.wsrt'')])] = Inr [] \<and>
   (\<exists>subtitles.
      extract_subtitles test_env
        [(PStr ''subtitleReferences'', PList
           [PDict [(PStr ''url'', PStr ''http://svt.se/a.wsrt'')],
            PDict [(PStr ''url'', PStr ''http://svt.se/b.m3u8''), (PStr ''language'', PStr ''sv'')],
            PDict [(PStr ''url'', PStr ''http://svt.se/c.vtt''), (PStr ''language'', PStr ''en'')],
            PDict [(PStr ''url'', PStr ''http://svt.se/d.vtt''), (PStr ''language'', PStr ''sv'')]])] =
        Inr subtitles \<and>
      dict_find subtitles (PStr ''sv'') =
        Some (PList [PDict [(PStr ''url'', PStr ''http://svt.se/a.wsrt'')],
                     PDict [(PStr ''url'', PStr ''http://svt.se/d.vtt'')]]) \<and>
      dict_find subtitles (PStr ''en'') =
        Some (PList [PDict [(PStr ''url'', PStr ''http://svt.se/c.vtt'')]]) \<and>
      dict_find subtitles (PStr ''fi'') = None) \<and>
   sub_lang [(PStr ''url'', PStr ''http://svt.se/a.wsrt'')] = PStr ''sv'' \<and>
   dict_get [(PStr ''subtitles'', PList []),
             (PStr ''subtitleReferences'',
              PList [PDict [(PStr ''url'', PStr ''http://svt.se/a.wsrt'')]])]
     [''subtitles'', ''subtitleReferences''] PNone True =
     PList [PDict [(PStr ''url'', PStr ''http://svt.se/a.wsrt'')]]"
proof -
  let ?m = "[(PStr ''subtitles'', PDict [(PStr ''sv'', PStr ''http://svt.se/a.wsrt'')])]"
  let ?srs = "[PDict [(PStr ''url'', PStr ''http://svt.se/a.wsrt'')],
            PDict [(PStr ''url'', PStr ''http://svt.se/b.m3u8''), (PStr ''language'', PStr ''sv'')],
            PDict [(PStr ''url'', PStr ''http://svt.se/c.vtt''), (PStr ''language'', PStr ''en'')],
            PDict [(PStr ''url'', PStr ''http://svt.se/d.vtt''), (PStr ''language'', PStr ''sv'')]]"
  let ?vi = "[(PStr ''subtitleReferences'', PList ?srs)]"
  have a: "extract_subtitles test_env ?m = Inr []"
    using subtitles_grouped_by_language[of ?m test_env, THEN conjunct1] by simp
  have h: "dict_get ?vi [''subtitles'', ''subtitleReferences''] PNone True = PList ?srs \<and>
      list_all (well_typed_subtitle test_env) ?srs"
    by (simp add: sub_url_def sub_lang_def dget_def dget_default_def test_env_def
        after_last_dot_def)
  from subtitles_grouped_by_language[of ?vi test_env, THEN conjunct2, THEN conjunct1,
      rule_format, OF h]
  obtain subtitles where es: "extract_subtitles test_env ?vi = Inr subtitles"
    and g: "\<And>l. dict_find subtitles l =
        (if tracks_of test_env l ?srs = [] then None
         else Some (PList (tracks_of test_env l ?srs)))"
    by blast
  have sv: "dict_find subtitles (PStr ''sv'') =
        Some (PList [PDict [(PStr ''url'', PStr ''http://svt.se/a.wsrt'')],
                     PDict [(PStr ''url'', PStr ''http://svt.se/d.vtt'')]])"
    unfolding g
    by (simp add: tracks_of_def sub_url_def sub_lang_def dget_def dget_default_def test_env_def
        after_last_dot_def)
  have en: "dict_find subtitles (PStr ''en'') =
        Some (PList [PDict [(PStr ''url'', PStr ''http://svt.se/c.vtt'')]])"
    unfolding g
    by (simp add: tracks_of_def sub_url_def sub_lang_def dget_def dget_default_def test_env_def
        after_last_dot_def)
  have fi: "dict_find subtitles (PStr ''fi'') = None"
    unfolding g
    by (simp add: tracks_of_def sub_url_def sub_lang_def dget_def dget_default_def test_env_def
        after_last_dot_def)
  have lang: "sub_lang [(PStr ''url'', PStr ''http://svt.se/a.wsrt'')] = PStr ''sv''"
    using subtitles_grouped_by_language[of "[]" test_env, THEN conjunct2, THEN conjunct2,
        THEN conjunct1, rule_format, of "[(PStr ''url'', PStr ''http://svt.se/a.wsrt'')]"]
    by simp
  have second: "dict_get [(PStr ''subtitles'', PList []),
             (PStr ''subtitleReferences'',
              PList [PDict [(PStr ''url'', PStr ''http://svt.se/a.wsrt'')]])]
     [''subtitles'', ''subtitleReferences''] PNone True =
     PList [PDict [(PStr ''url'', PStr ''http://svt.se/a.wsrt'')]]"
    using subtitles_grouped_by_language[of "[(PStr ''subtitles'', PList []),
             (PStr ''subtitleReferences'',
              PList [PDict [(PStr ''url'', PStr ''http://svt.se/a.wsrt'')]])]" test_env,
        THEN conjunct2, THEN conjunct2, THEN conjunct2, THEN conjunct2, THEN conjunct1]
    by (simp add: dget_def dget_default_def)
  show ?thesis using a es sv en fi lang second by blast
qed

section \<open>Direct references\<close>

text \<open>
  C6: when every reference has a URL whose extension is none of \<^verbatim>\<open>m3u8\<close>, \<^verbatim>\<open>f4m\<close> and
  \<^verbatim>\<open>mpd\<close>, the loop produces exactly one direct format per reference, in order, each with
  the player type of its reference as format id, and no manifest decoder is called. The
  item that \<^verbatim>\<open>_extract_video\<close> returns has under \<^verbatim>\<open>formats\<close> these formats as
  \<^verbatim>\<open>_sort_formats\<close> leaves them, as many as there are references when sorting keeps the
  length; and it does return an item when there is a reference and neither the sorting, the
  subtitles nor the thumbnail raise.
\<close>

theorem non_adaptive_references:
  assumes "dict_find video_info (PStr ''videoReferences'') = Some (PList refs)"
    and "list_all (non_adaptive e) refs"
  shows "(\<exists>formats. extract_formats e video_info video_id = (Inr formats, []) \<and>
           length formats = length refs \<and>
           formats = map direct_format refs \<and>
           snd (extract_video e video_info video_id) = []) \<and>
         (\<forall>out calls. extract_video e video_info video_id = (Inr out, calls) \<longrightarrow>
            calls = [] \<and>
            (\<exists>formats'. sort_formats e (map direct_format refs) = Inr formats' \<and>
               dict_find out (PStr ''formats'') = Some (PList formats') \<and>
               ((\<forall>fs gs. sort_formats e fs = Inr gs \<longrightarrow> length gs = length fs) \<longrightarrow>
                  length formats' = length refs))) \<and>
         (\<forall>formats' subtitles thumbnail.
            refs \<noteq> [] \<and> sort_formats e (map direct_format refs) = Inr formats' \<and>
            extract_subtitles e video_info = Inr subtitles \<and>
            thumbnail_of video_info = Inr thumbnail \<longrightarrow>
            (\<exists>out. extract_video e video_info video_id = (Inr out, [])))"
proof -
  have ef: "extract_formats e video_info video_id = (Inr (map direct_format refs), [])"
    using assms by (simp add: extract_formats_def video_references_non_adaptive)
  then have a: "\<exists>formats. extract_formats e video_info video_id = (Inr formats, []) \<and>
           length formats = length refs \<and>
           formats = map direct_format refs \<and>
           snd (extract_video e video_info video_id) = []"
    by (simp add: snd_extract_video)
  have b: "calls = [] \<and>
            (\<exists>formats'. sort_formats e (map direct_format refs) = Inr formats' \<and>
               dict_find out (PStr ''formats'') = Some (PList formats') \<and>
               ((\<forall>fs gs. sort_formats e fs = Inr gs \<longrightarrow> length gs = length fs) \<longrightarrow>
                  length formats' = length refs))"
    if ev: "extract_video e video_info video_id = (Inr out, calls)" for out calls
  proof -
    from extract_video_formats[OF ev] ef obtain formats' where
      c: "calls = []" and sf: "sort_formats e (map direct_format refs) = Inr formats'"
      and f: "dict_find out (PStr ''formats'') = Some (PList formats')"
      by auto
    have "length formats' = length refs"
      if "\<forall>fs gs. sort_formats e fs = Inr gs \<longrightarrow> length gs = length fs"
      using that sf by fastforce
    with c sf f show ?thesis by blast
  qed
  have c: "\<exists>out. extract_video e video_info video_id = (Inr out, [])"
    if "refs \<noteq> []" "sort_formats e (map direct_format refs) = Inr formats'"
      "extract_subtitles e video_info = Inr subtitles" "thumbnail_of video_info = Inr thumbnail"
    for formats' subtitles thumbnail
    using extract_video_succeeds[OF ef _ that(2) that(3) that(4)] that(1) by simp
  show ?thesis using a b c by blast
qed

theorem non_adaptive_references_witness:
  "list_all (non_adaptive test_env)
     [PDict [(PStr ''url'', PStr ''http://svt.se/a.mp4''), (PStr ''playerType'', PStr ''mp4'')],
      PDict [(PStr ''url'', PStr ''http://svt.se/b.flv''), (PStr ''format'', PStr ''flash'')]] \<and>
   extract_formats test_env
     [(PStr ''videoReferences'', PList
        [PDict [(PStr ''url'', PStr ''http://svt.se/a.mp4''), (PStr ''playerType'', PStr ''mp4'')],
         PDict [(PStr ''url'', PStr ''http://svt.se/b.flv''), (PStr ''format'', PStr ''flash'')]])]
     ''2900353'' =
   (Inr [PDict [(PStr ''format_id'', PStr ''mp4''), (PStr ''url'', PStr ''http://svt.se/a.mp4'')],
         PDict [(PStr ''format_id'', PStr ''flash''), (PStr ''url'', PStr ''http://svt.se/b.flv'')]],
    []) \<and>
   (\<exists>out. extract_video test_env
     [(PStr ''videoReferences'', PList
        [PDict [(PStr ''url'', PStr ''http://svt.se/a.mp4''), (PStr ''playerType'', PStr ''mp4'')],
         PDict [(PStr ''url'', PStr ''http://svt.se/b.flv''), (PStr ''format'', PStr ''flash'')]])]
     ''2900353'' = (Inr out, []) \<and>
     dict_find out (PStr ''formats'') =
       Some (PList
         [PDict [(PStr ''format_id'', PStr ''mp4''), (PStr ''url'', PStr ''http://svt.se/a.mp4'')],
          PDict [(PStr ''format_id'', PStr ''flash''),
                 (PStr ''url'', PStr ''http://svt.se/b.flv'')]]))"
proof -
  let ?refs = "[PDict [(PStr ''url'', PStr ''http://svt.se/a.mp4''), (PStr ''playerType'', PStr ''mp4'')],
      PDict [(PStr ''url'', PStr ''http://svt.se/b.flv''), (PStr ''format'', PStr ''flash'')]]"
  let ?vi = "[(PStr ''videoReferences'', PList ?refs)]"
  let ?fs = "[PDict [(PStr ''format_id'', PStr ''mp4''), (PStr ''url'', PStr ''http://svt.se/a.mp4'')],
          PDict [(PStr ''format_id'', PStr ''flash''),
                 (PStr ''url'', PStr ''http://svt.se/b.flv'')]]"
  have h1: "dict_find ?vi (PStr ''videoReferences'') = Some (PList ?refs)"
    by simp
  have h2: "list_all (non_adaptive test_env) ?refs"
    by (simp add: test_env_def after_last_dot_def)
  note t = non_adaptive_references[OF h1 h2, of "''2900353''"]
  have df: "map direct_format ?refs = ?fs"
    by (simp add: player_type_of_def dget_def dget_default_def)
  have ef: "extract_formats test_env ?vi ''2900353'' = (Inr ?fs, [])"
    using t[THEN conjunct1] df by simp
  have sf: "sort_formats test_env (map direct_format ?refs) = Inr ?fs"
    using df by (simp add: test_env_def)
  have st: "extract_subtitles test_env ?vi = Inr []"
    by (simp add: extract_subtitles_def)
  have th: "thumbnail_of ?vi = Inr PNone"
    by (simp add: thumbnail_of_def dget_def dget_default_def)
  from t[THEN conjunct2, THEN conjunct2, rule_format, of ?fs "[]" PNone] sf st th
  obtain out where ev: "extract_video test_env ?vi ''2900353'' = (Inr out, [])"
    by auto
  from t[THEN conjunct2, THEN conjunct1, rule_format, OF ev] sf
  have "dict_find out (PStr ''formats'') = Some (PList ?fs)"
    by auto
  with ev have "\<exists>out. extract_video test_env ?vi ''2900353'' = (Inr out, []) \<and>
     dict_find out (PStr ''formats'') = Some (PList ?fs)"
    by blast
  with h2 ef show ?thesis by blast
qed

section \<open>Live streams\<close>

text \<open>
  C7: \<^verbatim>\<open>is_live\<close> is true exactly when \<^verbatim>\<open>live\<close> or \<^verbatim>\<open>simulcast\<close> is true, it is
  \<^verbatim>\<open>False\<close> when both are absent and the boolean disjunction when both are booleans or
  absent; every HLS decoder call of \<^verbatim>\<open>_extract_video\<close> has the container \<^verbatim>\<open>mp4\<close> and
  the entry protocol \<^verbatim>\<open>m3u8\<close> when \<^verbatim>\<open>is_live\<close> is true, \<^verbatim>\<open>m3u8_native\<close> otherwise,
  and a reference with the extension \<^verbatim>\<open>m3u8\<close> makes exactly that call.
\<close>

theorem is_live_and_hls_mode:
  "truthy (is_live_of video_info) =
     (truthy (dget video_info ''live'') \<or> truthy (dget video_info ''simulcast'')) \<and>
   (absent video_info ''live'' \<and> absent video_info ''simulcast'' \<longrightarrow>
      is_live_of video_info = PBool False) \<and>
   (bool_or_absent video_info ''live'' \<and> bool_or_absent video_info ''simulcast'' \<longrightarrow>
      is_live_of video_info =
        PBool (dget video_info ''live'' = PBool True \<or> dget video_info ''simulcast'' = PBool True)) \<and>
   (\<forall>vr vurl. dict_find vr (PStr ''url'') = Some vurl \<and> determine_ext e vurl = Inr ''m3u8'' \<longrightarrow>
      video_reference e (m3u8_protocol_of (is_live_of video_info)) video_id (PDict vr) =
        (Inr (decode e (M3U8 vurl video_id ''mp4''
                 (if truthy (is_live_of video_info) then ''m3u8'' else ''m3u8_native'')
                 (player_type_of vr))),
         [M3U8 vurl video_id ''mp4''
            (if truthy (is_live_of video_info) then ''m3u8'' else ''m3u8_native'')
            (player_type_of vr)])) \<and>
   (\<forall>u v x q i. M3U8 u v x q i \<in> set (snd (extract_video e video_info video_id)) \<longrightarrow>
      x = ''mp4'' \<and>
      q = (if truthy (is_live_of video_info) then ''m3u8'' else ''m3u8_native''))"
proof -
  have a: "truthy (is_live_of video_info) =
     (truthy (dget video_info ''live'') \<or> truthy (dget video_info ''simulcast''))"
    by (simp add: is_live_of_def truthy_dict_get_skip del: dict_get.simps)
  have b: "is_live_of video_info = PBool False"
    if "absent video_info ''live''" "absent video_info ''simulcast''"
    using that by (auto simp: is_live_of_def absent_def)
  have c: "is_live_of video_info =
        PBool (dget video_info ''live'' = PBool True \<or> dget video_info ''simulcast'' = PBool True)"
    if "bool_or_absent video_info ''live''" "bool_or_absent video_info ''simulcast''"
    using that by (auto simp: is_live_of_def bool_or_absent_def dget_def dget_default_def)
  have d: "video_reference e (m3u8_protocol_of (is_live_of video_info)) video_id (PDict vr) =
        (Inr (decode e (M3U8 vurl video_id ''mp4''
                 (if truthy (is_live_of video_info) then ''m3u8'' else ''m3u8_native'')
                 (player_type_of vr))),
         [M3U8 vurl video_id ''mp4''
            (if truthy (is_live_of video_info) then ''m3u8'' else ''m3u8_native'')
            (player_type_of vr)])"
    if "dict_find vr (PStr ''url'') = Some vurl" "determine_ext e vurl = Inr ''m3u8''"
    for vr vurl
    using that by (simp add: Let_def m3u8_protocol_of_def)
  have f: "x = ''mp4'' \<and> q = (if truthy (is_live_of video_info) then ''m3u8'' else ''m3u8_native'')"
    if "M3U8 u v x q i \<in> set (snd (extract_video e video_info video_id))" for u v x q i
    using that extract_formats_m3u8_calls[of u v x q i e video_info video_id]
    by (simp add: snd_extract_video m3u8_protocol_of_def)
  show ?thesis using a b c d f by blast
qed

theorem is_live_and_hls_mode_witness:
  "is_live_of [(PStr ''live'', PBool False), (PStr ''simulcast'', PBool True)] = PBool True \<and>
   is_live_of [(PStr ''title'', PStr ''SVT1'')] = PBool False \<and>
   video_reference test_env
     (m3u8_protocol_of (is_live_of [(PStr ''live'', PBool False), (PStr ''simulcast'', PBool True)]))
     ''ch-svt1''
     (PDict [(PStr ''url'', PStr ''http://svt.se/a.m3u8''), (PStr ''playerType'', PStr ''ios'')]) =
   (Inr (decode test_env
           (M3U8 (PStr ''http://svt.se/a.m3u8'') ''ch-svt1'' ''mp4'' ''m3u8'' (PStr ''ios''))),
    [M3U8 (PStr ''http://svt.se/a.m3u8'') ''ch-svt1'' ''mp4'' ''m3u8'' (PStr ''ios'')]) \<and>
   video_reference test_env (m3u8_protocol_of (is_live_of [(PStr ''title'', PStr ''SVT1'')]))
     ''5996901''
     (PDict [(PStr ''url'', PStr ''http://svt.se/a.m3u8''), (PStr ''playerType'', PStr ''ios'')]) =
   (Inr (decode test_env
           (M3U8 (PStr ''http://svt.se/a.m3u8'') ''5996901'' ''mp4'' ''m3u8_native''
              (PStr ''ios''))),
    [M3U8 (PStr ''http://svt.se/a.m3u8'') ''5996901'' ''mp4'' ''m3u8_native'' (PStr ''ios'')]) \<and>
   snd (extract_video test_env
     [(PStr ''live'', PBool True),
      (PStr ''videoReferences'', PList
         [PDict [(PStr ''url'', PStr ''http://svt.se/a.m3u8''),
                 (PStr ''playerType'', PStr ''ios'')]])] ''ch-svt1'') =
     [M3U8 (PStr ''http://svt.se/a.m3u8'') ''ch-svt1'' ''mp4'' ''m3u8'' (PStr ''ios'')]"
proof -
  let ?live = "[(PStr ''live'', PBool False), (PStr ''simulcast'', PBool True)]"
  let ?vod = "[(PStr ''title'', PStr ''SVT1'')]"
  let ?vr = "[(PStr ''url'', PStr ''http://svt.se/a.m3u8''), (PStr ''playerType'', PStr ''ios'')]"
  have ext: "determine_ext test_env (PStr ''http://svt.se/a.m3u8'') = Inr ''m3u8''"
    by (simp add: test_env_def after_last_dot_def)
  have url: "dict_find ?vr (PStr ''url'') = Some (PStr ''http://svt.se/a.m3u8'')"
    by simp
  have pt: "player_type_of ?vr = PStr ''ios''"
    by (simp add: player_type_of_def dget_def dget_default_def)
  note live = is_live_and_hls_mode[of ?live test_env "''ch-svt1''"]
  note vod = is_live_and_hls_mode[of ?vod test_env "''5996901''"]
  have a: "is_live_of ?live = PBool True"
    using live[THEN conjunct2, THEN conjunct2, THEN conjunct1]
    by (simp add: bool_or_absent_def dget_def dget_default_def)
  have b: "is_live_of ?vod = PBool False"
    using vod[THEN conjunct2, THEN conjunct1] by (simp add: absent_def)
  note c = live[THEN conjunct2, THEN conjunct2, THEN conjunct2, THEN conjunct1, rule_format,
      OF conjI, OF url ext]
  note d = vod[THEN conjunct2, THEN conjunct2, THEN conjunct2, THEN conjunct1, rule_format,
      OF conjI, OF url ext]
  let ?ch = "[(PStr ''live'', PBool True),
      (PStr ''videoReferences'', PList
         [PDict [(PStr ''url'', PStr ''http://svt.se/a.m3u8''),
                 (PStr ''playerType'', PStr ''ios'')]])]"
  have calls: "\<exists>q. snd (extract_video test_env ?ch ''ch-svt1'') =
     [M3U8 (PStr ''http://svt.se/a.m3u8'') ''ch-svt1'' ''mp4'' q (PStr ''ios'')]"
    by (simp add: snd_extract_video extract_formats_def is_live_of_def m3u8_protocol_of_def
        player_type_of_def dget_def dget_default_def test_env_def after_last_dot_def Let_def)
  then obtain q where q: "snd (extract_video test_env ?ch ''ch-svt1'') =
     [M3U8 (PStr ''http://svt.se/a.m3u8'') ''ch-svt1'' ''mp4'' q (PStr ''ios'')]"
    by blast
  have "q = (if truthy (is_live_of ?ch) then ''m3u8'' else ''m3u8_native'')"
    using is_live_and_hls_mode[of ?ch test_env "''ch-svt1''", THEN conjunct2, THEN conjunct2,
        THEN conjunct2, THEN conjunct2, rule_format,
        of "PStr ''http://svt.se/a.m3u8''" "''ch-svt1''" "''mp4''" q "PStr ''ios''"] q
    by simp
  then have "q = ''m3u8''" by (simp add: is_live_of_def)
  with q have f: "snd (extract_video test_env ?ch ''ch-svt1'') =
     [M3U8 (PStr ''http://svt.se/a.m3u8'') ''ch-svt1'' ''mp4'' ''m3u8'' (PStr ''ios'')]"
    by simp
  have "?thesis = (snd (extract_video test_env ?ch ''ch-svt1'') =
     [M3U8 (PStr ''http://svt.se/a.m3u8'') ''ch-svt1'' ''mp4'' ''m3u8'' (PStr ''ios'')])"
    using a b c d pt by (simp del: video_reference.simps)
  with f show ?thesis by blast
qed

section \<open>Mutual exclusion of the URL matchers\<close>

text \<open>
  C8: a URL that \<^verbatim>\<open>SVTIE.suitable\<close> accepts is rejected by \<^verbatim>\<open>SVTSeriesIE.suitable\<close> and
  by \<^verbatim>\<open>SVTPageIE.suitable\<close>, and a URL that \<^verbatim>\<open>SVTPlayIE.suitable\<close> accepts is rejected
  by \<^verbatim>\<open>SVTSeriesIE.suitable\<close>, whatever the URL patterns match.
\<close>

theorem suitable_mutual_exclusion:
  "(SVTIE_suitable e url \<longrightarrow> \<not> SVTSeriesIE_suitable e url \<and> \<not> SVTPageIE_suitable e url) \<and>
   (SVTPlayIE_suitable e url \<longrightarrow> \<not> SVTSeriesIE_suitable e url)"
  by (simp add: SVTSeriesIE_suitable_def SVTPageIE_suitable_def)

theorem suitable_mutual_exclusion_witness:
  "SVTIE_suitable test_env ''http://www.svt.se/wd?widgetId=23991&articleId=2900353'' \<and>
   valid_url test_env SVTPageIE ''http://www.svt.se/wd?widgetId=23991&articleId=2900353'' \<and>
   \<not> SVTSeriesIE_suitable test_env ''http://www.svt.se/wd?widgetId=23991&articleId=2900353'' \<and>
   \<not> SVTPageIE_suitable test_env ''http://www.svt.se/wd?widgetId=23991&articleId=2900353'' \<and>
   SVTPlayIE_suitable test_env ''https://www.svtplay.se/video/5996901'' \<and>
   valid_url test_env SVTSeriesIE ''https://www.svtplay.se/video/5996901'' \<and>
   \<not> SVTSeriesIE_suitable test_env ''https://www.svtplay.se/video/5996901''"
proof -
  have a: "SVTIE_suitable test_env ''http://www.svt.se/wd?widgetId=23991&articleId=2900353''"
    by (simp add: SVTIE_suitable_def InfoExtractor_suitable_def test_env_def)
  have b: "SVTPlayIE_suitable test_env ''https://www.svtplay.se/video/5996901''"
    by (simp add: SVTPlayIE_suitable_def InfoExtractor_suitable_def test_env_def)
  have c: "valid_url test_env SVTPageIE ''http://www.svt.se/wd?widgetId=23991&articleId=2900353''"
    by (simp add: test_env_def)
  have d: "valid_url test_env SVTSeriesIE ''https://www.svtplay.se/video/5996901''"
    by (simp add: test_env_def)
  from suitable_mutual_exclusion[of test_env
      "''http://www.svt.se/wd?widgetId=23991&articleId=2900353''", THEN conjunct1, rule_format, OF a]
    suitable_mutual_exclusion[of test_env "''https://www.svtplay.se/video/5996901''",
      THEN conjunct2, rule_format, OF b] a b c d
  show ?thesis by simp
qed

section \<open>Missing keys of the references\<close>

text \<open>
  C9: a document without the key \<^verbatim>\<open>videoReferences\<close> makes \<^verbatim>\<open>_extract_video\<close> raise
  \<^verbatim>\<open>KeyError\<close>, and so does a list of references of the expected shape in which one
  reference has no \<^verbatim>\<open>url\<close>; the geo restriction flag and the subtitles of the document
  play no part in it.
\<close>

theorem missing_keys_raise_key_error:
  "(dict_find video_info (PStr ''videoReferences'') = None \<longrightarrow>
      extract_video e video_info video_id = (Inl (KeyError (PStr ''videoReferences'')), [])) \<and>
   (\<forall>refs. dict_find video_info (PStr ''videoReferences'') = Some (PList refs) \<and>
      list_all (well_typed_reference e) refs \<and> (\<exists>r \<in> set refs. lacks_url r) \<longrightarrow>
      fst (extract_video e video_info video_id) = Inl (KeyError (PStr ''url'')))"
proof -
  have a: "extract_video e video_info video_id = (Inl (KeyError (PStr ''videoReferences'')), [])"
    if "dict_find video_info (PStr ''videoReferences'') = None"
    using that by (simp add: extract_video_def extract_formats_def)
  have b: "fst (extract_video e video_info video_id) = Inl (KeyError (PStr ''url''))"
    if h: "dict_find video_info (PStr ''videoReferences'') = Some (PList refs)"
      "list_all (well_typed_reference e) refs" "\<exists>r \<in> set refs. lacks_url r" for refs
  proof -
    have "fst (extract_formats e video_info video_id) = Inl (KeyError (PStr ''url''))"
      using h video_references_lacks_url[of e refs] by (simp add: extract_formats_def)
    then show ?thesis
      by (cases "extract_formats e video_info video_id") (simp add: extract_video_def)
  qed
  show ?thesis using a b by blast
qed

theorem missing_keys_raise_key_error_witness:
  "extract_video test_env
     [(PStr ''rights'', PDict [(PStr ''geoBlockedSweden'', PBool True)]),
      (PStr ''subtitles'', PList [PInt 5])] ''14278044'' =
     (Inl (KeyError (PStr ''videoReferences'')), []) \<and>
   fst (extract_video test_env
     [(PStr ''videoReferences'', PList
         [PDict [(PStr ''url'', PStr ''http://svt.se/a.m3u8'')],
          PDict [(PStr ''playerType'', PStr ''ios'')]]),
      (PStr ''rights'', PDict [(PStr ''geoBlockedSweden'', PBool True)]),
      (PStr ''subtitles'', PList [PInt 5])] ''14278044'') =
     Inl (KeyError (PStr ''url''))"
proof -
  let ?refs = "[PDict [(PStr ''url'', PStr ''http://svt.se/a.m3u8'')],
          PDict [(PStr ''playerType'', PStr ''ios'')]]"
  let ?vi = "[(PStr ''videoReferences'', PList ?refs),
      (PStr ''rights'', PDict [(PStr ''geoBlockedSweden'', PBool True)]),
      (PStr ''subtitles'', PList [PInt 5])]"
  have a: "extract_video test_env
     [(PStr ''rights'', PDict [(PStr ''geoBlockedSweden'', PBool True)]),
      (PStr ''subtitles'', PList [PInt 5])] ''14278044'' =
     (Inl (KeyError (PStr ''videoReferences'')), [])"
    using missing_keys_raise_key_error[of
        "[(PStr ''rights'', PDict [(PStr ''geoBlockedSweden'', PBool True)]),
          (PStr ''subtitles'', PList [PInt 5])]" test_env "''14278044''", THEN conjunct1]
    by simp
  have h1: "dict_find ?vi (PStr ''videoReferences'') = Some (PList ?refs)" by simp
  have h2: "list_all (well_typed_reference test_env) ?refs"
    by (simp add: test_env_def after_last_dot_def)
  have h3: "\<exists>r \<in> set ?refs. lacks_url r" by simp
  note b = missing_keys_raise_key_error[of ?vi test_env "''14278044''", THEN conjunct2,
      rule_format, OF conjI, OF h1 conjI, OF h2 h3]
  show ?thesis using a b by simp
qed

section \<open>Malformed content nodes\<close>

text \<open>
  C10, as amended: for a content node with the type tag \<^verbatim>\<open>VIDEOCLIP\<close> or
  \<^verbatim>\<open>VIDEOEPISODE\<close>, \<^verbatim>\<open>_process_content\<close> raises \<^verbatim>\<open>KeyError\<close> when the node has no
  \<^verbatim>\<open>image\<close> and when its \<^verbatim>\<open>image\<close> dictionary has no \<^verbatim>\<open>svtId\<close>, and \<^verbatim>\<open>TypeError\<close>
  when its \<^verbatim>\<open>image\<close> is not a dictionary. The node is never skipped: one such node in
  \<^verbatim>\<open>media\<close> or in \<^verbatim>\<open>structuredBody\<close> makes the whole extraction of the article raise, and
  among nodes of the expected shape the error is that \<^verbatim>\<open>KeyError\<close>.
\<close>

theorem malformed_node_aborts:
  "(qualifies content \<and> dict_find content (PStr ''image'') = None \<longrightarrow>
      process_content e entries (PDict content) = Inl (KeyError (PStr ''image''))) \<and>
   (\<forall>img. qualifies content \<and> dict_find content (PStr ''image'') = Some (PDict img) \<and>
      dict_find img (PStr ''svtId'') = None \<longrightarrow>
      process_content e entries (PDict content) = Inl (KeyError (PStr ''svtId''))) \<and>
   (\<forall>v. qualifies content \<and> dict_find content (PStr ''image'') = Some v \<and> \<not> is_dict v \<longrightarrow>
      process_content e entries (PDict content) = Inl TypeError) \<and>
   (\<forall>ms bs. dget_default article ''media'' (PList []) = PList ms \<and>
      dget_default article ''structuredBody'' (PList []) = PList bs \<and>
      list_all well_typed_node ms \<and> list_all well_typed_body bs \<and>
      ((\<exists>n \<in> set ms. malformed_node n) \<or> (\<exists>b \<in> set bs. malformed_node (body_content b))) \<longrightarrow>
      image_key_error (article_playlist e article)) \<and>
   (\<forall>ms. py_iter (dget_default article ''media'' (PList [])) = Inr ms \<and>
      (\<exists>n \<in> set ms. broken_node n) \<longrightarrow>
      (\<exists>err. article_playlist e article = Inl err)) \<and>
   (\<forall>bs. py_iter (dget_default article ''structuredBody'' (PList [])) = Inr bs \<and>
      (\<exists>b \<in> set bs. is_dict b \<and> broken_node (body_content b)) \<longrightarrow>
      (\<exists>err. article_playlist e article = Inl err))"
proof -
  have a: "process_content e entries (PDict content) = Inl (KeyError (PStr ''image''))"
    if "qualifies content" "dict_find content (PStr ''image'') = None"
    using that by (auto simp: qualifies_def)
  have b: "process_content e entries (PDict content) = Inl (KeyError (PStr ''svtId''))"
    if "qualifies content" "dict_find content (PStr ''image'') = Some (PDict img)"
       "dict_find img (PStr ''svtId'') = None" for img
    using that by (auto simp: qualifies_def)
  have t: "process_content e entries (PDict content) = Inl TypeError"
    if "qualifies content" "dict_find content (PStr ''image'') = Some v" "\<not> is_dict v" for v
    using that by (cases v) (auto simp: qualifies_def)
  have c: "image_key_error (article_playlist e article)"
    if ms: "dget_default article ''media'' (PList []) = PList ms"
      and bs: "dget_default article ''structuredBody'' (PList []) = PList bs"
      and wm: "list_all well_typed_node ms" and wb: "list_all well_typed_body bs"
      and bad: "(\<exists>n \<in> set ms. malformed_node n) \<or> (\<exists>b \<in> set bs. malformed_node (body_content b))"
    for ms bs
  proof (cases "\<exists>n \<in> set ms. malformed_node n")
    case True
    from media_loop_malformed[OF wm True, of e "[]"] ms show ?thesis
      by (auto simp: article_playlist_def image_key_error_def split: sum.splits)
  next
    case False
    with bad have bb: "\<exists>b \<in> set bs. malformed_node (body_content b)" by simp
    from media_loop_well_typed[OF wm False, of e "[]"] obtain entries'
      where ml: "media_loop e [] ms = Inr entries'" by blast
    from structured_body_loop_malformed[OF wb bb, of e entries'] ms bs ml show ?thesis
      by (auto simp: article_playlist_def image_key_error_def split: sum.splits)
  qed
  have d: "\<exists>err. article_playlist e article = Inl err"
    if "py_iter (dget_default article ''media'' (PList [])) = Inr ms"
      "\<exists>n \<in> set ms. broken_node n" for ms
    using that by (rule article_playlist_media_broken)
  have f: "\<exists>err. article_playlist e article = Inl err"
    if "py_iter (dget_default article ''structuredBody'' (PList [])) = Inr bs"
      "\<exists>b \<in> set bs. is_dict b \<and> broken_node (body_content b)" for bs
    using that by (rule article_playlist_body_broken)
  show ?thesis using a b t c d f by blast
qed

theorem malformed_node_aborts_witness:
  "process_content test_env [] (PDict [(PStr ''_type'', PStr ''VIDEOCLIP'')]) =
     Inl (KeyError (PStr ''image'')) \<and>
   process_content test_env []
     (PDict [(PStr ''_type'', PStr ''VIDEOEPISODE''),
             (PStr ''image'', PDict [(PStr ''id'', PInt 3)])]) =
     Inl (KeyError (PStr ''svtId'')) \<and>
   process_content test_env []
     (PDict [(PStr ''_type'', PStr ''VIDEOCLIP''), (PStr ''image'', PNone)]) = Inl TypeError \<and>
   article_playlist test_env
     [(PStr ''id'', PInt 25298267), (PStr ''title'', PStr ''Bakom masken''),
      (PStr ''media'', PList
         [PDict [(PStr ''_type'', PStr ''VIDEOCLIP''),
                 (PStr ''image'', PDict [(PStr ''svtId'', PStr ''jNwpV9P'')])],
          PDict [(PStr ''_type'', PStr ''IMAGE'')]]),
      (PStr ''structuredBody'', PList
         [PDict [(PStr ''content'',
            PDict [(PStr ''_type'', PStr ''VIDEOEPISODE''),
                   (PStr ''image'', PDict [(PStr ''id'', PInt 3)])])]])] =
     Inl (KeyError (PStr ''svtId'')) \<and>
   (\<exists>err. article_playlist test_env
     [(PStr ''media'', PList
         [PInt 7, PDict [(PStr ''_type'', PStr ''VIDEOCLIP''), (PStr ''image'', PNone)]])] =
     Inl err) \<and>
   (\<exists>err. article_playlist test_env
     [(PStr ''structuredBody'', PList
         [PDict [(PStr ''content'',
            PDict [(PStr ''_type'', PStr ''VIDEOCLIP''), (PStr ''image'', PNone)])]])] =
     Inl err)"
proof -
  let ?bad = "[(PStr ''_type'', PStr ''VIDEOEPISODE''),
                   (PStr ''image'', PDict [(PStr ''id'', PInt 3)])]"
  let ?null = "[(PStr ''_type'', PStr ''VIDEOCLIP''), (PStr ''image'', PNone)]"
  let ?ms = "[PDict [(PStr ''_type'', PStr ''VIDEOCLIP''),
                 (PStr ''image'', PDict [(PStr ''svtId'', PStr ''jNwpV9P'')])],
          PDict [(PStr ''_type'', PStr ''IMAGE'')]]"
  let ?bs = "[PDict [(PStr ''content'', PDict ?bad)]]"
  let ?article = "[(PStr ''id'', PInt 25298267), (PStr ''title'', PStr ''Bakom masken''),
      (PStr ''media'', PList ?ms), (PStr ''structuredBody'', PList ?bs)]"
  let ?a2 = "[(PStr ''media'', PList [PInt 7, PDict ?null])]"
  let ?a3 = "[(PStr ''structuredBody'', PList [PDict [(PStr ''content'', PDict ?null)]])]"
  have a: "process_content test_env [] (PDict [(PStr ''_type'', PStr ''VIDEOCLIP'')]) =
     Inl (KeyError (PStr ''image''))"
    using malformed_node_aborts[of "[(PStr ''_type'', PStr ''VIDEOCLIP'')]" test_env "[]" "[]",
        THEN conjunct1]
    by (simp add: qualifies_def dget_def dget_default_def)
  have b: "process_content test_env [] (PDict ?bad) = Inl (KeyError (PStr ''svtId''))"
    using malformed_node_aborts[of ?bad test_env "[]" "[]", THEN conjunct2, THEN conjunct1,
        rule_format, of "[(PStr ''id'', PInt 3)]"]
    by (simp add: qualifies_def dget_def dget_default_def)
  have n: "process_content test_env [] (PDict ?null) = Inl TypeError"
    using malformed_node_aborts[of ?null test_env "[]" "[]", THEN conjunct2, THEN conjunct2,
        THEN conjunct1, rule_format, of PNone]
    by (simp add: qualifies_def dget_def dget_default_def)
  have h: "dget_default ?article ''media'' (PList []) = PList ?ms \<and>
      dget_default ?article ''structuredBody'' (PList []) = PList ?bs \<and>
      list_all well_typed_node ?ms \<and> list_all well_typed_body ?bs \<and>
      ((\<exists>n \<in> set ?ms. malformed_node n) \<or> (\<exists>b \<in> set ?bs. malformed_node (body_content b)))"
    by (simp add: qualifies_def dget_def dget_default_def)
  from malformed_node_aborts[of "[]" test_env "[]" ?article, THEN conjunct2, THEN conjunct2,
      THEN conjunct2, THEN conjunct1, rule_format, OF h]
  have c: "image_key_error (article_playlist test_env ?article)" .
  have d: "article_playlist test_env ?article = Inl (KeyError (PStr ''svtId''))"
    using c
    by (simp add: article_playlist_def dget_def dget_default_def test_env_def url_result_def
        Let_def)
  have h2: "py_iter (dget_default ?a2 ''media'' (PList [])) = Inr [PInt 7, PDict ?null] \<and>
      (\<exists>n \<in> set [PInt 7, PDict ?null]. broken_node n)"
    by (simp add: qualifies_def dget_def dget_default_def)
  from malformed_node_aborts[of "[]" test_env "[]" ?a2, THEN conjunct2, THEN conjunct2,
      THEN conjunct2, THEN conjunct2, THEN conjunct1, rule_format, OF h2]
  have f: "\<exists>err. article_playlist test_env ?a2 = Inl err" .
  have h3: "py_iter (dget_default ?a3 ''structuredBody'' (PList [])) =
        Inr [PDict [(PStr ''content'', PDict ?null)]] \<and>
      (\<exists>b \<in> set [PDict [(PStr ''content'', PDict ?null)]].
         is_dict b \<and> broken_node (body_content b))"
    by (simp add: qualifies_def dget_def dget_default_def)
  from malformed_node_aborts[of "[]" test_env "[]" ?a3, THEN conjunct2, THEN conjunct2,
      THEN conjunct2, THEN conjunct2, THEN conjunct2, rule_format, OF h3]
  have g: "\<exists>err. article_playlist test_env ?a3 = Inl err" .
  show ?thesis using a b n d f g by blast
qed


text \<open>
  C10 as first stated does not hold: a qualifying node with \<^verbatim>\<open>image: null\<close> has no
  \<^verbatim>\<open>image.svtId\<close>, and line 416 raises \<^verbatim>\<open>TypeError\<close> for it, not \<^verbatim>\<open>KeyError\<close>.
\<close>

theorem malformed_node_image_null_counterexample:
  "qualifies [(PStr ''_type'', PStr ''VIDEOCLIP''), (PStr ''image'', PNone)] \<and>
   getitem PNone ''svtId'' = Inl TypeError \<and>
   process_content test_env []
     (PDict [(PStr ''_type'', PStr ''VIDEOCLIP''), (PStr ''image'', PNone)]) = Inl TypeError \<and>
   \<not> image_key_error (process_content test_env []
     (PDict [(PStr ''_type'', PStr ''VIDEOCLIP''), (PStr ''image'', PNone)])) \<and>
   article_playlist test_env
     [(PStr ''id'', PInt 25298267),
      (PStr ''media'', PList
         [PDict [(PStr ''_type'', PStr ''VIDEOCLIP''), (PStr ''image'', PNone)]])] =
     Inl TypeError"
  by (simp add: qualifies_def dget_def dget_default_def image_key_error_def
      article_playlist_def)


end
